theory Spec2Isabelle
  imports Complex_Main
begin

section \<open>JavaScript values and the runtime operations the proxy relies on\<close>

text \<open>
  The proxy manipulates values produced by \<^verbatim>\<open>JSON.parse\<close>. A JSON number is a
  rational here (the literal \<^verbatim>\<open>0.7\<close> is \<open>7/10\<close>); an object is the list of its own
  properties in insertion order (keys distinct, as \<^verbatim>\<open>JSON.parse\<close> builds them).
  JavaScript's \<^verbatim>\<open>undefined\<close> is \<open>None\<close> of \<open>json option\<close>. Strings are lists of
  code units below 256.
\<close>

datatype json =
    JNull
  | JBool bool
  | JNum rat
  | JStr string
  | JArr "json list"
  | JObj "(string \<times> json) list"

text \<open>
  A thrown value. \<open>TypeError\<close> and \<open>SyntaxError\<close> are raised by the runtime (property
  read on \<^verbatim>\<open>null\<close>/\<^verbatim>\<open>undefined\<close>, call of a non-function, \<^verbatim>\<open>JSON.parse\<close>);
  \<open>Error msg None\<close> is \<^verbatim>\<open>new Error(msg)\<close> and \<open>Error prefix (Some e)\<close> is
  \<^verbatim>\<open>new Error(`prefix${e.message}`)\<close>.
\<close>

datatype js_error =
    TypeError
  | SyntaxError
  | Error string "js_error option"

type_synonym 'a result = "js_error + 'a"

text \<open>Truthiness (\<^verbatim>\<open>!v\<close> is its negation).\<close>

fun truthy :: "json option \<Rightarrow> bool" where
  "truthy None = False"
| "truthy (Some JNull) = False"
| "truthy (Some (JBool b)) = b"
| "truthy (Some (JNum n)) = (n \<noteq> 0)"
| "truthy (Some (JStr s)) = (s \<noteq> [])"
| "truthy (Some (JArr xs)) = True"
| "truthy (Some (JObj kvs)) = True"

text \<open>
  \<^verbatim>\<open>v.k\<close> for the property names the proxy reads (\<^verbatim>\<open>id\<close>, \<^verbatim>\<open>choices\<close>,
  \<^verbatim>\<open>message\<close>, \<^verbatim>\<open>content\<close>, \<^verbatim>\<open>role\<close>, \<^verbatim>\<open>name\<close>, \<^verbatim>\<open>description\<close>,
  \<^verbatim>\<open>days\<close>, \<^verbatim>\<open>prompt\<close>, \<^verbatim>\<open>max_tokens\<close>): none of them is defined on a
  prototype, so only an object's own properties can answer; reading from \<^verbatim>\<open>null\<close> or
  \<^verbatim>\<open>undefined\<close> throws.
\<close>

fun js_get :: "json option \<Rightarrow> string \<Rightarrow> (json option) result" where
  "js_get None k = Inl TypeError"
| "js_get (Some JNull) k = Inl TypeError"
| "js_get (Some (JObj kvs)) k = Inr (map_of kvs k)"
| "js_get (Some v) k = Inr None"

text \<open>\<^verbatim>\<open>v[0]\<close> on a value that is not \<^verbatim>\<open>null\<close>/\<^verbatim>\<open>undefined\<close>.\<close>

fun js_index0 :: "json \<Rightarrow> json option" where
  "js_index0 (JArr []) = None"
| "js_index0 (JArr (x # xs)) = Some x"
| "js_index0 (JStr []) = None"
| "js_index0 (JStr (c # cs)) = Some (JStr [c])"
| "js_index0 (JObj kvs) = map_of kvs ''0''"
| "js_index0 v = None"

text \<open>\<^verbatim>\<open>typeof v === 'object'\<close>: objects, arrays and \<^verbatim>\<open>null\<close>.\<close>

fun typeof_object :: "json option \<Rightarrow> bool" where
  "typeof_object (Some JNull) = True"
| "typeof_object (Some (JArr xs)) = True"
| "typeof_object (Some (JObj kvs)) = True"
| "typeof_object v = False"

fun isArray :: "json option \<Rightarrow> bool" where
  "isArray (Some (JArr xs)) = True"
| "isArray v = False"

text \<open>\<^verbatim>\<open>s.includes(sub)\<close>.\<close>

fun str_includes :: "string \<Rightarrow> string \<Rightarrow> bool" where
  "str_includes [] sub = (sub = [])"
| "str_includes (c # cs) sub = (take (length sub) (c # cs) = sub \<or> str_includes cs sub)"

text \<open>
  \<^verbatim>\<open>JSON.parse\<close> and the string conversion of a non-string value belong to the
  runtime, not to the repository: the functions below take them as parameters
  \<open>parse :: string \<Rightarrow> json option\<close> (\<open>None\<close> when \<^verbatim>\<open>JSON.parse\<close> throws its
  \<open>SyntaxError\<close>) and \<open>ts :: json option \<Rightarrow> string\<close>. \<open>JSON_parse\<close> is the call
  \<^verbatim>\<open>JSON.parse(v)\<close> on an arbitrary value, which converts a non-string to a string
  first.
\<close>

type_synonym parser = "string \<Rightarrow> json option"
type_synonym tostring = "json option \<Rightarrow> string"

fun js_String :: "tostring \<Rightarrow> json option \<Rightarrow> string" where
  "js_String ts (Some (JStr s)) = s"
| "js_String ts v = ts v"

definition JSON_parse :: "parser \<Rightarrow> tostring \<Rightarrow> json option \<Rightarrow> json result" where
  "JSON_parse parse ts v =
     (case parse (js_String ts v) of None \<Rightarrow> Inl SyntaxError | Some r \<Rightarrow> Inr r)"

text \<open>
  \<^verbatim>\<open>typeof content === 'object' ? content : JSON.parse(content)\<close>, the expression
  shared by the validator and the backward transformer.
\<close>

definition object_or_parse :: "parser \<Rightarrow> tostring \<Rightarrow> json option \<Rightarrow> json result" where
  "object_or_parse parse ts content =
     (case content of
        Some JNull \<Rightarrow> Inr JNull
      | Some (JArr xs) \<Rightarrow> Inr (JArr xs)
      | Some (JObj kvs) \<Rightarrow> Inr (JObj kvs)
      | _ \<Rightarrow> JSON_parse parse ts content)"

section \<open>The combined proxy variant: tables\<close>

definition MAX_LOG_LENGTH :: nat where
  "MAX_LOG_LENGTH = 1000"

text \<open>\<^verbatim>\<open>EXPECTED_STRUCTURES\<close>: the required and optional fields per endpoint.\<close>

definition EXPECTED_STRUCTURES :: "(string \<times> string list \<times> string list) list" where
  "EXPECTED_STRUCTURES =
     [(''chat/completions'', [''choices''], [''id'', ''object'', ''created'', ''model'', ''usage'']),
      (''workout-plan'', [''name'', ''description'', ''days''], [''duration'', ''difficulty'', ''equipment'']),
      (''meal-plan'', [''name'', ''description'', ''meals''], [''calories'', ''duration'', ''dietaryRestrictions''])]"

section \<open>validateResponseStructure\<close>

text \<open>
  The plan check inside the loop over the choices: the \<^verbatim>\<open>try\<close> block reads the content,
  parses it unless it is already an object, and throws when \<^verbatim>\<open>name\<close>,
  \<^verbatim>\<open>description\<close> or \<^verbatim>\<open>days\<close> is falsy; the \<^verbatim>\<open>catch\<close> wraps whatever was thrown.
\<close>

definition plan_try :: "parser \<Rightarrow> tostring \<Rightarrow> json option \<Rightarrow> unit result" where
  "plan_try parse ts content =
     (case object_or_parse parse ts content of
        Inl e \<Rightarrow> Inl e
      | Inr parsed \<Rightarrow>
          (case js_get (Some parsed) ''name'' of
             Inl e \<Rightarrow> Inl e
           | Inr nm \<Rightarrow>
               if \<not> truthy nm then Inl (Error ''Invalid plan structure: missing required fields'' None)
               else (case js_get (Some parsed) ''description'' of
                  Inl e \<Rightarrow> Inl e
                | Inr ds \<Rightarrow>
                    if \<not> truthy ds then Inl (Error ''Invalid plan structure: missing required fields'' None)
                    else (case js_get (Some parsed) ''days'' of
                       Inl e \<Rightarrow> Inl e
                     | Inr dy \<Rightarrow>
                         if \<not> truthy dy then Inl (Error ''Invalid plan structure: missing required fields'' None)
                         else Inr ()))))"

definition plan_check :: "parser \<Rightarrow> tostring \<Rightarrow> json option \<Rightarrow> unit result" where
  "plan_check parse ts content =
     (case plan_try parse ts content of
        Inl e \<Rightarrow> Inl (Error ''Invalid plan format: '' (Some e))
      | Inr u \<Rightarrow> Inr u)"

text \<open>The body of the loop for one choice.\<close>

definition check_choice :: "parser \<Rightarrow> tostring \<Rightarrow> string \<Rightarrow> json \<Rightarrow> unit result" where
  "check_choice parse ts path choice =
     (case js_get (Some choice) ''message'' of
        Inl e \<Rightarrow> Inl e
      | Inr msg \<Rightarrow>
          if \<not> truthy msg then Inl (Error ''Invalid response structure: message missing required fields'' None)
          else (case js_get msg ''content'' of
             Inl e \<Rightarrow> Inl e
           | Inr content \<Rightarrow>
               if \<not> truthy content then Inl (Error ''Invalid response structure: message missing required fields'' None)
               else (case js_get msg ''role'' of
                  Inl e \<Rightarrow> Inl e
                | Inr role \<Rightarrow>
                    if \<not> truthy role then Inl (Error ''Invalid response structure: message missing required fields'' None)
                    else if str_includes path ''workout-plan'' \<or> str_includes path ''meal-plan''
                      then plan_check parse ts content
                      else Inr ())))"

fun check_choices :: "parser \<Rightarrow> tostring \<Rightarrow> string \<Rightarrow> json list \<Rightarrow> unit result" where
  "check_choices parse ts path [] = Inr ()"
| "check_choices parse ts path (c # cs) =
     (case check_choice parse ts path c of
        Inl e \<Rightarrow> Inl e
      | Inr u \<Rightarrow> check_choices parse ts path cs)"

definition validateResponseStructure :: "parser \<Rightarrow> tostring \<Rightarrow> json option \<Rightarrow> string \<Rightarrow> bool result" where
  "validateResponseStructure parse ts response path =
     (if str_includes path ''chat/completions'' then
        (case js_get response ''id'' of
           Inl e \<Rightarrow> Inl e
         | Inr rid \<Rightarrow>
             if \<not> truthy rid
             then Inl (Error ''Invalid response structure: missing required fields for chat completion'' None)
             else (case js_get response ''choices'' of
                Inl e \<Rightarrow> Inl e
              | Inr chs \<Rightarrow>
                  if \<not> truthy chs
                  then Inl (Error ''Invalid response structure: missing required fields for chat completion'' None)
                  else if \<not> isArray chs
                  then Inl (Error ''Invalid response structure: missing required fields for chat completion'' None)
                  else (case chs of
                     Some (JArr cs) \<Rightarrow>
                       (case check_choices parse ts path cs of Inl e \<Rightarrow> Inl e | Inr u \<Rightarrow> Inr True)
                   | _ \<Rightarrow> Inr True)))
      else Inr True)"

text \<open>
  The inline check of the earlier validating variant, applied to the parsed reply (or to
  the raw text when it did not parse):
  \<^verbatim>\<open>!data || !data.choices || !Array.isArray(data.choices) || data.choices.length === 0\<close>.
\<close>

definition choices_missing_or_empty :: "json option \<Rightarrow> bool" where
  "choices_missing_or_empty data =
     (\<not> truthy data \<or>
      (case js_get data ''choices'' of
         Inl e \<Rightarrow> True
       | Inr chs \<Rightarrow> \<not> truthy chs \<or> \<not> isArray chs \<or> chs = Some (JArr [])))"

section \<open>cleanOpenAIResponse\<close>

text \<open>
  The class \<^verbatim>\<open>\s\<close> of a regular expression, which is also what \<^verbatim>\<open>trim()\<close>
  removes, among the code units below 256: tab, line feed, vertical tab, form feed,
  carriage return, space and the no-break space.
\<close>

definition is_space :: "char \<Rightarrow> bool" where
  "is_space c = (c \<in> {CHR 0x09, CHR 0x0A, CHR 0x0B, CHR 0x0C, CHR 0x0D, CHR 0x20, CHR 0xA0})"

text \<open>\<^verbatim>\<open>json\<close> under the flag \<^verbatim>\<open>i\<close>.\<close>

fun json_ci :: "string \<Rightarrow> bool" where
  "json_ci [a, b, c, d] =
     ((a = CHR ''j'' \<or> a = CHR ''J'') \<and> (b = CHR ''s'' \<or> b = CHR ''S'') \<and>
      (c = CHR ''o'' \<or> c = CHR ''O'') \<and> (d = CHR ''n'' \<or> d = CHR ''N''))"
| "json_ci s = False"

text \<open>
  The five \<^verbatim>\<open>replace\<close> calls and the \<^verbatim>\<open>trim\<close>, each with a regular expression
  without the flag \<^verbatim>\<open>g\<close>: the leftmost match is replaced, once. \<^verbatim>\<open>^\<close> is the
  start of the text and \<^verbatim>\<open>$\<close> its end (no flag \<^verbatim>\<open>m\<close>).
  \<^item> \<^verbatim>\<open>.replace(/^```json\s*/i, '')\<close>
  \<^item> \<^verbatim>\<open>.replace(/^```\s*/i, '')\<close>
  \<^item> \<^verbatim>\<open>.replace(/\s*```$/, '')\<close>: the match is the three backticks that end the
    text together with the whole run of white space before them.
  \<^item> \<^verbatim>\<open>.replace(/^\s*{\s*/, '{')\<close>
  \<^item> \<^verbatim>\<open>.replace(/\s*}\s*$/, '}')\<close>: the match is the last character that is not
    white space, when it is a closing brace, with the white space on both sides.
\<close>

definition strip_json_fence :: "string \<Rightarrow> string" where
  "strip_json_fence s =
     (if take 3 s = ''```'' \<and> json_ci (take 4 (drop 3 s))
      then dropWhile is_space (drop 7 s) else s)"

definition strip_fence :: "string \<Rightarrow> string" where
  "strip_fence s = (if take 3 s = ''```'' then dropWhile is_space (drop 3 s) else s)"

definition strip_end_fence :: "string \<Rightarrow> string" where
  "strip_end_fence s =
     (if take 3 (rev s) = ''```'' then rev (dropWhile is_space (drop 3 (rev s))) else s)"

definition clean_json_start :: "string \<Rightarrow> string" where
  "clean_json_start s =
     (case dropWhile is_space s of
        [] \<Rightarrow> s
      | c # rest \<Rightarrow> if c = CHR ''{'' then CHR ''{'' # dropWhile is_space rest else s)"

definition clean_json_end :: "string \<Rightarrow> string" where
  "clean_json_end s =
     (case dropWhile is_space (rev s) of
        [] \<Rightarrow> s
      | c # rest \<Rightarrow> if c = CHR ''}'' then rev (dropWhile is_space rest) @ ''}'' else s)"

definition trim :: "string \<Rightarrow> string" where
  "trim s = rev (dropWhile is_space (rev (dropWhile is_space s)))"

definition cleaned_text :: "string \<Rightarrow> string" where
  "cleaned_text rawResponse =
     trim (clean_json_end (clean_json_start (strip_end_fence (strip_fence
       (strip_json_fence rawResponse)))))"

text \<open>
  \<open>cleanOpenAIResponse\<close> on a string (the guard \<^verbatim>\<open>typeof rawResponse !== 'string'\<close>
  is excluded by the argument's type). On a chat-completion path the
  \<open>SyntaxError\<close> of \<^verbatim>\<open>JSON.parse\<close> escapes as it is; on any other path both parses
  sit inside the outer \<^verbatim>\<open>try\<close>, whose \<^verbatim>\<open>catch\<close> replaces the error.
\<close>

definition cleanOpenAIResponse :: "parser \<Rightarrow> string \<Rightarrow> string \<Rightarrow> json result" where
  "cleanOpenAIResponse parse rawResponse path =
     (if str_includes path ''chat/completions'' then
        (case parse rawResponse of None \<Rightarrow> Inl SyntaxError | Some v \<Rightarrow> Inr v)
      else
        (case parse rawResponse of
           Some v \<Rightarrow> Inr v
         | None \<Rightarrow>
             (case parse (cleaned_text rawResponse) of
                Some v \<Rightarrow> Inr v
              | None \<Rightarrow> Inl (Error ''Failed to clean and parse OpenAI response'' None))))"

section \<open>safeJsonParse\<close>

text \<open>An entry handed to \<^verbatim>\<open>log(requestId, type, message, data)\<close>.\<close>

datatype log_field = Text string | MessageOf js_error | Value json

record log_entry =
  log_requestId :: string
  log_type :: string
  log_message :: string
  log_data :: "(string \<times> log_field) list"

text \<open>The \<^verbatim>\<open>try\<close> block of \<open>safeJsonParse\<close>.\<close>

definition safeJsonParse_try :: "parser \<Rightarrow> tostring \<Rightarrow> string \<Rightarrow> string \<Rightarrow> json result" where
  "safeJsonParse_try parse ts text path =
     (case cleanOpenAIResponse parse text path of
        Inl e \<Rightarrow> Inl e
      | Inr cleaned \<Rightarrow>
          if \<not> typeof_object (Some cleaned) \<or> cleaned = JNull
          then Inl (Error ''Parsed response is not a valid object'' None)
          else (case validateResponseStructure parse ts (Some cleaned) path of
             Inl e \<Rightarrow> Inl e
           | Inr ok \<Rightarrow> Inr cleaned))"

text \<open>
  \<open>safeJsonParse\<close> returns the entries it logged and its result. In the \<^verbatim>\<open>catch\<close>
  block the arguments of \<^verbatim>\<open>log\<close> are evaluated first, and the last of them is
  \<^verbatim>\<open>cleanOpenAIResponse(text, path).substring(0, MAX_LOG_LENGTH)\<close>: the text is cleaned
  a second time, which throws again when the first cleaning threw, and
  \<^verbatim>\<open>substring\<close> exists only when the cleaned value is a string.
\<close>

definition safeJsonParse ::
  "parser \<Rightarrow> tostring \<Rightarrow> string \<Rightarrow> string \<Rightarrow> string \<Rightarrow> log_entry list \<times> json result" where
  "safeJsonParse parse ts text requestId path =
     (if text = [] then ([], Inl (Error ''Empty response received from OpenAI'' None))
      else
        (case safeJsonParse_try parse ts text path of
           Inr cleaned \<Rightarrow> ([], Inr cleaned)
         | Inl error \<Rightarrow>
             (case cleanOpenAIResponse parse text path of
                Inl e2 \<Rightarrow> ([], Inl e2)
              | Inr (JStr c) \<Rightarrow>
                  ([\<lparr>log_requestId = requestId, log_type = ''JSON_PARSE_ERROR'',
                     log_message = ''Failed to parse OpenAI response'',
                     log_data = [(''error'', MessageOf error), (''path'', Text path),
                                 (''originalText'', Text (take MAX_LOG_LENGTH text)),
                                 (''cleanedText'', Text (take MAX_LOG_LENGTH c))]\<rparr>],
                   Inl (Error ''Invalid JSON format returned from OpenAI: '' (Some error)))
              | Inr other \<Rightarrow> ([], Inl TypeError))))"

text \<open>
  A stand-in for \<^verbatim>\<open>JSON.parse\<close> in closed examples. It knows four texts and rejects
  every other one; on each text it is applied to in this theory it answers as
  \<^verbatim>\<open>JSON.parse\<close> does.
\<close>

definition sample_parse :: parser where
  "sample_parse s =
     map_of [(''{}'', JObj []),
             (''{'' @ [CHR 0x22] @ ''a'' @ [CHR 0x22] @ '':1}'', JObj [(''a'', JNum 1)]),
             (''5'', JNum 5),
             ([CHR 0x22] @ ''plan'' @ [CHR 0x22], JStr ''plan'')] s"

section \<open>SPECIAL_PROMPTS, convertToChatCompletion and transformResponse\<close>

record special_prompt =
  system :: string
  user :: "string \<Rightarrow> string"

definition workout_prompt :: special_prompt where
  "workout_prompt =
     \<lparr>system = ''You are a professional fitness trainer. Create detailed, structured workout plans that include warmup, exercises, and cooldown. Always return responses in valid JSON format with name, description, and days fields.'',
      user = (\<lambda>prompt. ''Create a workout plan with the following requirements: '' @ prompt @
        ''. Return the response as a JSON object with fields: name (string), description (string), and days (array of workout days).'')\<rparr>"

definition meal_prompt :: special_prompt where
  "meal_prompt =
     \<lparr>system = ''You are a professional nutritionist. Create detailed, structured meal plans that are healthy and balanced. Always return responses in valid JSON format with name, description, and meals fields.'',
      user = (\<lambda>prompt. ''Create a meal plan with the following requirements: '' @ prompt @
        ''. Return the response as a JSON object with fields: name (string), description (string), and meals (array of meals).'')\<rparr>"

text \<open>
  \<^verbatim>\<open>SPECIAL_PROMPTS[endpoint]\<close> reads a property of an object literal: its own two
  keys answer with their rule, the names that every object inherits from
  \<^verbatim>\<open>Object.prototype\<close> answer with a function or object (truthy, and without a
  \<^verbatim>\<open>system\<close> or \<^verbatim>\<open>user\<close> of its own), every other name with \<^verbatim>\<open>undefined\<close>.
\<close>

datatype 'a property = Own 'a | Inherited | Absent

definition object_prototype_names :: "string list" where
  "object_prototype_names =
     [''constructor'', ''__defineGetter__'', ''__defineSetter__'', ''hasOwnProperty'',
      ''__lookupGetter__'', ''__lookupSetter__'', ''isPrototypeOf'', ''propertyIsEnumerable'',
      ''toString'', ''valueOf'', ''__proto__'', ''toLocaleString'']"

definition SPECIAL_PROMPTS :: "string \<Rightarrow> special_prompt property" where
  "SPECIAL_PROMPTS endpoint =
     (if endpoint = ''workout-plan'' then Own workout_prompt
      else if endpoint = ''meal-plan'' then Own meal_prompt
      else if endpoint \<in> set object_prototype_names then Inherited
      else Absent)"

text \<open>\<^verbatim>\<open>path.split('/').pop()\<close>: what follows the last slash.\<close>

definition last_segment :: "string \<Rightarrow> string" where
  "last_segment path = rev (takeWhile (\<lambda>c. c \<noteq> CHR ''/'') (rev path))"

text \<open>\<^verbatim>\<open>a || d\<close> for a default \<open>d\<close> that is a value.\<close>

definition or_default :: "json option \<Rightarrow> json \<Rightarrow> json" where
  "or_default a d = (case a of Some v \<Rightarrow> if truthy a then v else d | None \<Rightarrow> d)"

text \<open>
  The string conversion that a template literal applies to \<^verbatim>\<open>${prompt}\<close>. A string
  is itself; \<^verbatim>\<open>null\<close>, a boolean and a number are converted by the runtime (\<open>ts\<close>);
  an object is converted through its \<^verbatim>\<open>toString\<close>, which is the inherited one
  (\<^verbatim>\<open>[object Object]\<close>) unless the object has an own property of that name: a parsed
  JSON value is never callable, and then the conversion throws a \<open>TypeError\<close>; an
  array joins the conversions of its elements with commas, \<^verbatim>\<open>null\<close> elements giving
  the empty string, and throws what the first failing element throws.
\<close>

fun js_ToString :: "tostring \<Rightarrow> json \<Rightarrow> string result"
  and js_join :: "tostring \<Rightarrow> json list \<Rightarrow> string result" where
  "js_ToString ts (JStr s) = Inr s"
| "js_ToString ts (JObj kvs) =
     (case map_of kvs ''toString'' of
        None \<Rightarrow> Inr ''[object Object]''
      | Some own \<Rightarrow> Inl TypeError)"
| "js_ToString ts (JArr xs) = js_join ts xs"
| "js_ToString ts JNull = Inr (ts (Some JNull))"
| "js_ToString ts (JBool b) = Inr (ts (Some (JBool b)))"
| "js_ToString ts (JNum n) = Inr (ts (Some (JNum n)))"
| "js_join ts [] = Inr []"
| "js_join ts [x] = (case x of JNull \<Rightarrow> Inr [] | other \<Rightarrow> js_ToString ts x)"
| "js_join ts (x # y # ys) =
     (case (case x of JNull \<Rightarrow> Inr [] | other \<Rightarrow> js_ToString ts x) of
        Inl e \<Rightarrow> Inl e
      | Inr a \<Rightarrow>
          (case js_join ts (y # ys) of
             Inl e \<Rightarrow> Inl e
           | Inr b \<Rightarrow> Inr (a @ '','' @ b)))"

text \<open>
  \<open>convertToChatCompletion\<close> returns the pair \<^verbatim>\<open>{ path, body }\<close>. With an inherited
  property in place of a rule, \<^verbatim>\<open>specialPrompt.user\<close> is \<^verbatim>\<open>undefined\<close> and calling
  it throws; with a rule, \<^verbatim>\<open>body.prompt\<close> is read first, which throws when the body is
  \<^verbatim>\<open>null\<close> or \<^verbatim>\<open>undefined\<close>, and the rule's template then converts the prompt
  (or the default text) to a string, which can throw as well; \<^verbatim>\<open>body.max_tokens\<close> is
  read after that.
\<close>

definition convertToChatCompletion ::
  "tostring \<Rightarrow> string \<Rightarrow> json option \<Rightarrow> (string \<times> json option) result" where
  "convertToChatCompletion ts path body =
     (case SPECIAL_PROMPTS (last_segment path) of
        Absent \<Rightarrow> Inr (path, body)
      | Inherited \<Rightarrow> Inl TypeError
      | Own specialPrompt \<Rightarrow>
          (case js_get body ''prompt'' of
             Inl e \<Rightarrow> Inl e
           | Inr prompt \<Rightarrow>
               (case js_ToString ts (or_default prompt (JStr ''Create a general plan'')) of
                  Inl e \<Rightarrow> Inl e
                | Inr text \<Rightarrow>
                    (case js_get body ''max_tokens'' of
                       Inl e \<Rightarrow> Inl e
                     | Inr max_tokens \<Rightarrow>
                         Inr (''chat/completions'',
                           Some (JObj
                             [(''model'', JStr ''gpt-3.5-turbo''),
                              (''messages'', JArr
                                 [JObj [(''role'', JStr ''system''),
                                        (''content'', JStr (system specialPrompt))],
                                  JObj [(''role'', JStr ''user''),
                                        (''content'', JStr (user specialPrompt text))]]),
                              (''temperature'', JNum (7 / 10)),
                              (''max_tokens'', or_default max_tokens (JNum 2000)),
                              (''response_format'', JObj [(''type'', JStr ''json_object'')])]))))))"

text \<open>
  \<open>transformResponse\<close>. The guard reads \<^verbatim>\<open>response.choices\<close> outside the
  \<^verbatim>\<open>try\<close>; everything thrown inside the \<^verbatim>\<open>try\<close> is wrapped by the \<^verbatim>\<open>catch\<close>.
\<close>

definition transformResponse_try :: "parser \<Rightarrow> tostring \<Rightarrow> json option \<Rightarrow> json result" where
  "transformResponse_try parse ts choice0 =
     (case js_get choice0 ''message'' of
        Inl e \<Rightarrow> Inl e
      | Inr message \<Rightarrow>
          (case js_get message ''content'' of
             Inl e \<Rightarrow> Inl e
           | Inr content \<Rightarrow> object_or_parse parse ts content))"

definition transformResponse ::
  "parser \<Rightarrow> tostring \<Rightarrow> string \<Rightarrow> json option \<Rightarrow> (json option) result" where
  "transformResponse parse ts path response =
     (case SPECIAL_PROMPTS (last_segment path) of
        Absent \<Rightarrow> Inr response
      | found \<Rightarrow>
        (case js_get response ''choices'' of
           Inl e \<Rightarrow> Inl e
         | Inr choices \<Rightarrow>
             (case choices of
                None \<Rightarrow> Inr response
              | Some chs \<Rightarrow>
                  if \<not> truthy choices \<or> \<not> truthy (js_index0 chs) then Inr response
                  else
                    (case transformResponse_try parse ts (js_index0 chs) of
                       Inl error \<Rightarrow>
                         Inl (Error ''Failed to parse special endpoint response: '' (Some error))
                     | Inr v \<Rightarrow> Inr (Some v)))))"

text \<open>
  A stand-in for the runtime's string conversion in closed examples, right on
  \<^verbatim>\<open>undefined\<close>, \<^verbatim>\<open>null\<close>, booleans, strings and plain objects.
\<close>

definition sample_String :: tostring where
  "sample_String v =
     (case v of
        None \<Rightarrow> ''undefined''
      | Some JNull \<Rightarrow> ''null''
      | Some (JBool b) \<Rightarrow> (if b then ''true'' else ''false'')
      | Some (JStr s) \<Rightarrow> s
      | Some (JObj kvs) \<Rightarrow> ''[object Object]''
      | Some other \<Rightarrow> [])"

section \<open>The timeout-enabled proxy: requests, responses, timers\<close>

definition OPENAI_BASE_URL :: string where
  "OPENAI_BASE_URL = ''https://api.openai.com/v1''"

definition TIMEOUT_MS :: int where
  "TIMEOUT_MS = 120000"

definition TIMEOUT_SECONDS :: int where
  "TIMEOUT_SECONDS = TIMEOUT_MS div 1000"

text \<open>A number inside a template literal: its decimal digits.\<close>

definition digit_char :: "nat \<Rightarrow> char" where
  "digit_char n = ''0123456789'' ! (n mod 10)"

function show_nat :: "nat \<Rightarrow> string" where
  "show_nat n = (if n < 10 then [digit_char n] else show_nat (n div 10) @ [digit_char n])"
  by pat_completeness auto
termination
  by (relation "measure id") auto

definition show_int :: "int \<Rightarrow> string" where
  "show_int i = (if i < 0 then CHR ''-'' # show_nat (nat (- i)) else show_nat (nat i))"

text \<open>
  What the handlers read from \<^verbatim>\<open>req\<close>: the identifier that the tracking middleware
  stored in the header \<^verbatim>\<open>x-request-id\<close>, the time it stored in \<^verbatim>\<open>startTime\<close>
  (milliseconds), the method, the path, the part of the path matched by the wildcard
  of the route, and the body.
\<close>

record request =
  req_id :: string
  req_startTime :: int
  req_method :: string
  req_path :: string
  req_params0 :: string
  req_body :: "json option"

text \<open>A response sent to the client: its status and its JSON body.\<close>

record response =
  res_status :: nat
  res_body :: json

text \<open>
  The value that reaches a \<^verbatim>\<open>catch\<close> block: what a rejected \<^verbatim>\<open>fetch\<close> or
  \<^verbatim>\<open>json()\<close> promise carries, or what a statement of the \<^verbatim>\<open>try\<close> block threw.
\<close>

record caught_error =
  err_name :: string
  err_message :: string
  err_stack :: string

definition details_text :: string where
  "details_text = ''Request took longer than '' @ show_int TIMEOUT_SECONDS @ '' seconds to complete''"

text \<open>The body of both 504 responses of the timeout-enabled proxy.\<close>

definition timeout_error_body :: "string \<Rightarrow> string \<Rightarrow> json" where
  "timeout_error_body message requestId =
     JObj [(''error'', JObj
       [(''message'', JStr message),
        (''type'', JStr ''timeout_error''),
        (''code'', JStr ''timeout_error''),
        (''details'', JStr details_text),
        (''requestId'', JStr requestId)])]"

definition proxy_error_body :: "string \<Rightarrow> string \<Rightarrow> json" where
  "proxy_error_body details requestId =
     JObj [(''error'', JObj
       [(''message'', JStr ''Failed to process OpenAI request''),
        (''type'', JStr ''proxy_error''),
        (''code'', JStr ''proxy_error''),
        (''details'', JStr details),
        (''requestId'', JStr requestId)])]"

text \<open>
  The life of one request after the route handler has logged \<^verbatim>\<open>OPENAI_REQUEST\<close>,
  armed its abort timer and called \<^verbatim>\<open>fetch\<close>. The handler is suspended at one of its
  two \<^verbatim>\<open>await\<close>s or has run to its end. The state records whether the abort timer is
  still armed, the responses sent to the client, the exceptions that left the handler
  with nothing to catch them, and the log.
\<close>

datatype phase = AwaitingFetch | AwaitingBody nat | Finished

record handler_state =
  phase :: phase
  timer_pending :: bool
  aborted :: bool
  writes :: "response list"
  unhandled :: "caught_error list"
  logs :: "log_entry list"

text \<open>
  A call \<^verbatim>\<open>res.status(code).json(body)\<close>. The source never asks whether a response
  was sent. The runtime does: it sends the response of the first call of a request,
  and it answers every later call by throwing, with nothing sent.
\<close>

definition headers_sent_error :: caught_error where
  "headers_sent_error =
     \<lparr>err_name = ''Error'',
      err_message = ''Cannot set headers after they are sent to the client'',
      err_stack = []\<rparr>"

definition res_json :: "response \<Rightarrow> handler_state \<Rightarrow> handler_state \<times> caught_error option" where
  "res_json r s =
     (if writes s = [] then (s\<lparr>writes := [r]\<rparr>, None) else (s, Some headers_sent_error))"

text \<open>
  What can happen next, with the time \<^verbatim>\<open>Date.now()\<close> reads then: the callback given
  to \<^verbatim>\<open>res.setTimeout\<close> runs; the callback of the handler's own \<^verbatim>\<open>setTimeout\<close>
  runs; the \<^verbatim>\<open>fetch\<close> promise settles; the \<^verbatim>\<open>json()\<close> promise settles.
\<close>

datatype event =
    ResponseTimeout int
  | FetchTimer int
  | FetchResolved int nat
  | FetchRejected int caught_error
  | BodyParsed int json
  | BodyRejected int caught_error

definition initial :: "request \<Rightarrow> handler_state" where
  "initial req =
     \<lparr>phase = AwaitingFetch, timer_pending = True, aborted = False, writes = [],
      unhandled = [],
      logs = [\<lparr>log_requestId = req_id req, log_type = ''OPENAI_REQUEST'',
               log_message = ''Forwarding to OpenAI: '' @ OPENAI_BASE_URL @ ''/'' @ req_params0 req,
               log_data = [(''method'', Text ''POST''), (''path'', Text (req_params0 req))]
                          @ (case req_body req of None \<Rightarrow> [] | Some b \<Rightarrow> [(''body'', Value b)])\<rparr>]\<rparr>"

text \<open>
  The last statement of the handler on each of its paths is a call of \<^verbatim>\<open>json\<close>;
  when that call is made from the \<^verbatim>\<open>catch\<close> block and throws, the exception leaves
  the handler.
\<close>

definition last_write :: "response \<Rightarrow> handler_state \<Rightarrow> handler_state" where
  "last_write r s =
     (case res_json r s of
        (s1, None) \<Rightarrow> s1\<lparr>phase := Finished\<rparr>
      | (s1, Some thrown) \<Rightarrow> s1\<lparr>phase := Finished, unhandled := unhandled s1 @ [thrown]\<rparr>)"

text \<open>The \<^verbatim>\<open>catch\<close> block of the route handler.\<close>

definition catch_block :: "request \<Rightarrow> int \<Rightarrow> caught_error \<Rightarrow> handler_state \<Rightarrow> handler_state" where
  "catch_block req now error s =
     (let duration = now - req_startTime req in
      if err_name error = ''AbortError'' then
        last_write
          \<lparr>res_status = 504,
           res_body = timeout_error_body ''OpenAI request timeout reached'' (req_id req)\<rparr>
          (s\<lparr>logs := logs s @
            [\<lparr>log_requestId = req_id req, log_type = ''TIMEOUT'',
              log_message = ''OpenAI request timeout reached'',
              log_data = [(''duration'', Text (show_int duration @ ''ms'')),
                          (''timeout'', Text (show_int TIMEOUT_SECONDS @ ''s''))]\<rparr>]\<rparr>)
      else
        last_write
          \<lparr>res_status = 500,
           res_body = proxy_error_body (err_message error) (req_id req)\<rparr>
          (s\<lparr>logs := logs s @
            [\<lparr>log_requestId = req_id req, log_type = ''ERROR'',
              log_message = ''Failed to process OpenAI request'',
              log_data = [(''error'', Text (err_message error)),
                          (''duration'', Text (show_int duration @ ''ms'')),
                          (''stack'', Text (err_stack error))]\<rparr>]\<rparr>))"

text \<open>
  One event. The runtime runs the callback of \<^verbatim>\<open>res.setTimeout\<close> only while the
  response is unsent; the callback logs and writes its 504. The abort timer, unless
  \<^verbatim>\<open>clearTimeout\<close> disarmed it, aborts and logs; a \<^verbatim>\<open>fetch\<close> still pending then
  rejects with the library's \<open>AbortError\<close>, which resumes the handler in its
  \<^verbatim>\<open>catch\<close>. A promise settles once: a settlement that does not match the
  \<^verbatim>\<open>await\<close> the handler is suspended at changes nothing. The success write sits
  inside the \<^verbatim>\<open>try\<close>: when it throws, the \<^verbatim>\<open>catch\<close> block runs on what it threw.
\<close>

fun step :: "request \<Rightarrow> handler_state \<Rightarrow> event \<Rightarrow> handler_state" where
  "step req s (ResponseTimeout now) =
     (if writes s \<noteq> [] then s
      else fst (res_json
        \<lparr>res_status = 504,
         res_body = timeout_error_body ''Server response timeout reached'' (req_id req)\<rparr>
        (s\<lparr>logs := logs s @
          [\<lparr>log_requestId = req_id req, log_type = ''TIMEOUT'',
            log_message = ''Server response timeout reached'',
            log_data = [(''duration'', Text (show_int (now - req_startTime req) @ ''ms'')),
                        (''path'', Text (req_path req)),
                        (''timeout'', Text (show_int TIMEOUT_SECONDS @ ''s''))]\<rparr>]\<rparr>)))"
| "step req s (FetchTimer now) =
     (if \<not> timer_pending s then s
      else
        (let s1 = s\<lparr>timer_pending := False, aborted := True,
                    logs := logs s @
                      [\<lparr>log_requestId = req_id req, log_type = ''FETCH_TIMEOUT'',
                        log_message = ''OpenAI fetch request timeout reached'',
                        log_data = [(''duration'', Text (show_int (now - req_startTime req) @ ''ms'')),
                                    (''timeout'', Text (show_int TIMEOUT_SECONDS @ ''s''))]\<rparr>]\<rparr>
         in if phase s = AwaitingFetch
            then catch_block req now
                   \<lparr>err_name = ''AbortError'', err_message = ''The user aborted a request.'',
                    err_stack = []\<rparr> s1
            else s1))"
| "step req s (FetchResolved now st) =
     (if phase s = AwaitingFetch then s\<lparr>phase := AwaitingBody st, timer_pending := False\<rparr> else s)"
| "step req s (FetchRejected now error) =
     (if phase s = AwaitingFetch then catch_block req now error s else s)"
| "step req s (BodyParsed now data) =
     (case phase s of
        AwaitingBody st \<Rightarrow>
          (case res_json \<lparr>res_status = st, res_body = data\<rparr>
                  (s\<lparr>logs := logs s @
                      [\<lparr>log_requestId = req_id req, log_type = ''OPENAI_RESPONSE'',
                        log_message = ''OpenAI response received'',
                        log_data = [(''status'', Text (show_nat st)),
                                    (''duration'', Text (show_int (now - req_startTime req) @ ''ms'')),
                                    (''response'', Value data)]\<rparr>]\<rparr>) of
             (s1, None) \<Rightarrow> s1\<lparr>phase := Finished\<rparr>
           | (s1, Some thrown) \<Rightarrow> catch_block req now thrown s1)
      | other \<Rightarrow> s)"
| "step req s (BodyRejected now error) =
     (case phase s of
        AwaitingBody st \<Rightarrow> catch_block req now error s
      | other \<Rightarrow> s)"

definition run :: "request \<Rightarrow> event list \<Rightarrow> handler_state" where
  "run req evs = foldl (step req) (initial req) evs"

text \<open>A response that passes on the value read from the upstream reply in this run.\<close>

fun is_body_parsed :: "json \<Rightarrow> event \<Rightarrow> bool" where
  "is_body_parsed v (BodyParsed now data) = (data = v)"
| "is_body_parsed v ev = False"

definition sample_request :: request where
  "sample_request =
     \<lparr>req_id = ''req-1'', req_startTime = 0, req_method = ''POST'',
      req_path = ''/openai/v1/chat/completions'', req_params0 = ''chat/completions'',
      req_body = Some (JObj [(''messages'', JArr [])])\<rparr>"

section \<open>The combined proxy variant: middleware and catch-all route\<close>

text \<open>
  The 504 body of the combined variant's \<^verbatim>\<open>res.setTimeout\<close> callback (it adds the path
  and a timestamp), the 400 body of its JSON parser middleware, the 500 body of its
  global error handler and the 500 body of its catch-all route.
\<close>

definition combined_timeout_body :: "string \<Rightarrow> string \<Rightarrow> string \<Rightarrow> json" where
  "combined_timeout_body requestId path timestamp =
     JObj [(''error'', JObj
       [(''message'', JStr ''Server response timeout reached''),
        (''type'', JStr ''timeout_error''),
        (''code'', JStr ''timeout_error''),
        (''details'', JStr details_text),
        (''requestId'', JStr requestId),
        (''path'', JStr path),
        (''timestamp'', JStr timestamp)])]"

definition parse_error_body :: "string \<Rightarrow> json" where
  "parse_error_body msg =
     JObj [(''error'', JObj
       [(''type'', JStr ''parse_error''),
        (''message'', JStr ''Invalid JSON in request body''),
        (''details'', JStr msg)])]"

definition global_error_body :: "string \<Rightarrow> json" where
  "global_error_body msg =
     JObj [(''error'', JObj
       [(''type'', JStr ''internal_error''),
        (''message'', JStr (if msg = [] then ''An unexpected error occurred''
                            else msg))])]"

definition internal_error_body :: "string \<Rightarrow> json" where
  "internal_error_body msg =
     JObj [(''error'', JObj
       [(''type'', JStr ''internal_error''),
        (''message'', JStr msg)])]"

text \<open>
  The library's \<^verbatim>\<open>bodyParser.text\<close> runs first: it either fails, handing its error to
  the global error handler, or leaves in \<^verbatim>\<open>req.body\<close> what it read (the field
  \<open>req_body\<close> of the request: a string, or what the library puts there when it read
  nothing) and goes on to the custom JSON parser.
\<close>

datatype body_parser = BodyParserError string | BodyParserNext

text \<open>
  The custom JSON parser. It answers 400 itself when \<^verbatim>\<open>JSON.parse\<close> throws, with the
  message of what was thrown (\<open>syntax_message\<close> of the text, from the runtime) as
  details.
\<close>

definition json_parser_middleware ::
  "parser \<Rightarrow> tostring \<Rightarrow> (string \<Rightarrow> string) \<Rightarrow> request \<Rightarrow> response + request" where
  "json_parser_middleware parse ts syntax_message req =
     (if \<not> truthy (req_body req) then Inr req
      else
        (case JSON_parse parse ts (req_body req) of
           Inr v \<Rightarrow> Inr (req\<lparr>req_body := Some v\<rparr>)
         | Inl err \<Rightarrow>
             Inl \<lparr>res_status = 400,
                  res_body = parse_error_body (syntax_message (js_String ts (req_body req)))\<rparr>))"

text \<open>
  The catch-all route \<^verbatim>\<open>app.all('*', ...)\<close>: the request it sends upstream, and what
  happens while it waits, until the upstream call has replied with a JSON value or
  failed with an error message. Its success write sits inside the \<^verbatim>\<open>try\<close>, its
  error write inside the \<^verbatim>\<open>catch\<close>. Logging is left out of this model.
\<close>

record upstream_request =
  up_url :: string
  up_method :: string
  up_body :: "json option"

definition proxy_all_request :: "request \<Rightarrow> upstream_request" where
  "proxy_all_request req =
     \<lparr>up_url = OPENAI_BASE_URL @ req_path req, up_method = req_method req,
      up_body = req_body req\<rparr>"

record combined_state =
  c_finished :: bool
  c_writes :: "response list"
  c_unhandled :: "caught_error list"

datatype combined_event =
    ServerTimeout int string
  | UpstreamReplied json
  | UpstreamFailed string

definition combined_initial :: combined_state where
  "combined_initial = \<lparr>c_finished = False, c_writes = [], c_unhandled = []\<rparr>"

definition combined_json :: "response \<Rightarrow> combined_state \<Rightarrow> combined_state \<times> caught_error option" where
  "combined_json r s =
     (if c_writes s = [] then (s\<lparr>c_writes := [r]\<rparr>, None) else (s, Some headers_sent_error))"

definition combined_catch :: "string \<Rightarrow> combined_state \<Rightarrow> combined_state" where
  "combined_catch msg s =
     (case combined_json \<lparr>res_status = 500, res_body = internal_error_body msg\<rparr> s of
        (s1, None) \<Rightarrow> s1\<lparr>c_finished := True\<rparr>
      | (s1, Some thrown) \<Rightarrow> s1\<lparr>c_finished := True, c_unhandled := c_unhandled s1 @ [thrown]\<rparr>)"

fun combined_step :: "request \<Rightarrow> combined_state \<Rightarrow> combined_event \<Rightarrow> combined_state" where
  "combined_step req s (ServerTimeout now timestamp) =
     (if c_writes s \<noteq> [] then s
      else fst (combined_json
        \<lparr>res_status = 504,
         res_body = combined_timeout_body (req_id req) (req_path req) timestamp\<rparr> s))"
| "combined_step req s (UpstreamReplied data) =
     (if c_finished s then s
      else
        (case combined_json \<lparr>res_status = 200, res_body = data\<rparr> s of
           (s1, None) \<Rightarrow> s1\<lparr>c_finished := True\<rparr>
         | (s1, Some thrown) \<Rightarrow> combined_catch (err_message thrown) s1))"
| "combined_step req s (UpstreamFailed msg) =
     (if c_finished s then s else combined_catch msg s)"

text \<open>
  One request through the combined variant, its body already received: the request
  sent upstream, if the catch-all route was reached, and the responses sent to the
  client.
\<close>

definition combined_app ::
  "parser \<Rightarrow> tostring \<Rightarrow> (string \<Rightarrow> string) \<Rightarrow> body_parser \<Rightarrow> request \<Rightarrow> combined_event list
   \<Rightarrow> upstream_request option \<times> response list" where
  "combined_app parse ts syntax_message bp req evs =
     (case bp of
        BodyParserError msg \<Rightarrow>
          (None, [\<lparr>res_status = 500, res_body = global_error_body msg\<rparr>])
      | BodyParserNext \<Rightarrow>
          (case json_parser_middleware parse ts syntax_message req of
             Inl r \<Rightarrow> (None, [r])
           | Inr req1 \<Rightarrow>
               (Some (proxy_all_request req1),
                c_writes (foldl (combined_step req1) combined_initial evs))))"

fun is_upstream_replied :: "json \<Rightarrow> combined_event \<Rightarrow> bool" where
  "is_upstream_replied v (UpstreamReplied data) = (data = v)"
| "is_upstream_replied v ev = False"

text \<open>
  Which function of the combined variant calls which, read off the bodies in the
  source: the functions it names, the two templates of \<^verbatim>\<open>SPECIAL_PROMPTS\<close>, and the
  anonymous functions it hands to \<^verbatim>\<open>app.use\<close>, \<^verbatim>\<open>res.setTimeout\<close>, \<^verbatim>\<open>app.all\<close>
  and \<^verbatim>\<open>app.listen\<close>. The framework invokes what was registered with it, and what
  is invoked invokes its callees.
\<close>

datatype fn =
    Log
  | CleanOpenAIResponse
  | ValidateResponseStructure
  | SafeJsonParse
  | ConvertToChatCompletion
  | TransformResponse
  | PromptTemplate
  | TrackingMiddleware
  | TimeoutMiddleware
  | TimeoutCallback
  | JsonParserMiddleware
  | GlobalErrorHandler
  | CatchAllRoute
  | ListenCallback

definition registered :: "fn list" where
  "registered =
     [TrackingMiddleware, TimeoutMiddleware, JsonParserMiddleware, GlobalErrorHandler,
      CatchAllRoute, ListenCallback]"

fun callees :: "fn \<Rightarrow> fn list" where
  "callees Log = []"
| "callees CleanOpenAIResponse = []"
| "callees ValidateResponseStructure = []"
| "callees SafeJsonParse = [CleanOpenAIResponse, ValidateResponseStructure, Log]"
| "callees ConvertToChatCompletion = [PromptTemplate]"
| "callees TransformResponse = []"
| "callees PromptTemplate = []"
| "callees TrackingMiddleware = [Log]"
| "callees TimeoutMiddleware = [TimeoutCallback]"
| "callees TimeoutCallback = [Log]"
| "callees JsonParserMiddleware = []"
| "callees GlobalErrorHandler = []"
| "callees CatchAllRoute = []"
| "callees ListenCallback = [Log]"

inductive invoked :: "fn \<Rightarrow> bool" where
  registered: "f \<in> set registered \<Longrightarrow> invoked f"
| called: "invoked f \<Longrightarrow> g \<in> set (callees f) \<Longrightarrow> invoked g"

text \<open>The member \<^verbatim>\<open>error\<close> of a body, and the names of its fields.\<close>

definition error_fields :: "json \<Rightarrow> (string \<times> json) list" where
  "error_fields b =
     (case b of
        JObj kvs \<Rightarrow> (case map_of kvs ''error'' of Some (JObj fs) \<Rightarrow> fs | other \<Rightarrow> [])
      | other \<Rightarrow> [])"

text \<open>
  An error body carries a type that the proxies write and a message; a full one carries
  also a code equal to its type, details and the given request identifier.
\<close>

definition typed_error :: "json \<Rightarrow> bool" where
  "typed_error b =
     (case (map_of (error_fields b) ''type'', map_of (error_fields b) ''message'') of
        (Some (JStr t), Some (JStr m)) \<Rightarrow>
          t \<in> set [''parse_error'', ''timeout_error'', ''proxy_error'', ''internal_error'']
      | other \<Rightarrow> False)"

definition full_error :: "json \<Rightarrow> string \<Rightarrow> bool" where
  "full_error b requestId =
     (typed_error b
      \<and> map_of (error_fields b) ''code'' = map_of (error_fields b) ''type''
      \<and> (case map_of (error_fields b) ''details'' of Some (JStr d) \<Rightarrow> True | other \<Rightarrow> False)
      \<and> map_of (error_fields b) ''requestId'' = Some (JStr requestId))"

text \<open>
  A stand-in, in closed examples, for the message of the \<open>SyntaxError\<close> that
  \<^verbatim>\<open>JSON.parse\<close> throws.
\<close>

definition sample_syntax_message :: "string \<Rightarrow> string" where
  "sample_syntax_message raw = ''Unexpected token i in JSON at position 1''"

text \<open>
  A text between braces is tight when no white space follows the opening brace or
  precedes the closing one, as in what \<^verbatim>\<open>JSON.stringify\<close> prints for an object.
\<close>

definition tight :: "string \<Rightarrow> bool" where
  "tight m = (m = [] \<or> (\<not> is_space (hd m) \<and> \<not> is_space (last m)))"

section \<open>Properties of the validator\<close>

lemma validate_other_path:
  "\<not> str_includes path ''chat/completions'' \<Longrightarrow>
   validateResponseStructure parse ts response path = Inr True"
  by (simp add: validateResponseStructure_def)

lemma validate_missing_id:
  assumes "str_includes path ''chat/completions''" and "map_of kvs ''id'' = None"
  shows "validateResponseStructure parse ts (Some (JObj kvs)) path =
         Inl (Error ''Invalid response structure: missing required fields for chat completion'' None)"
  using assms by (simp add: validateResponseStructure_def)

lemma validate_choice_without_message_fields:
  assumes "str_includes path ''chat/completions''"
    and "truthy (map_of kvs ''id'')"
    and "map_of kvs ''choices'' = Some (JArr (JObj c # cs))"
    and "map_of c ''message'' = Some (JObj m)"
    and "\<not> truthy (map_of m ''content'') \<or> \<not> truthy (map_of m ''role'')"
  shows "validateResponseStructure parse ts (Some (JObj kvs)) path =
         Inl (Error ''Invalid response structure: message missing required fields'' None)"
  using assms by (auto simp add: validateResponseStructure_def check_choice_def)

lemma validate_minimal_accepted:
  "validateResponseStructure parse ts
     (Some (JObj [(''id'', JStr ''chatcmpl-1''),
                  (''choices'', JArr [JObj [(''message'',
                      JObj [(''role'', JStr ''assistant''), (''content'', JStr ''hi'')])]])]))
     ''chat/completions'' = Inr True"
  by (simp add: validateResponseStructure_def check_choice_def)

lemma empty_choices_rejected_by_inline_check:
  "choices_missing_or_empty (Some (JObj [(''id'', JStr ''chatcmpl-1''), (''choices'', JArr [])]))"
  by (simp add: choices_missing_or_empty_def)

text \<open>
  C8. The claim: the validator rejects every chat-completion body whose choices
  collection is empty (and bodies without an identifier or whose choices lack role or
  content), and accepts a minimal well-formed body. On the body
  \<^verbatim>\<open>{"id": "chatcmpl-1", "choices": []}\<close> \<open>validateResponseStructure\<close> returns
  \<^verbatim>\<open>true\<close>: an empty array is truthy, it is an array, and the loop over its choices
  runs zero times. The body is accepted, not rejected.
\<close>

theorem validate_accepts_empty_choices:
  "validateResponseStructure parse ts
     (Some (JObj [(''id'', JStr ''chatcmpl-1''), (''choices'', JArr [])]))
     ''chat/completions'' = Inr True"
  by (simp add: validateResponseStructure_def)

text \<open>
  C9. The claim: a specialized endpoint's content is validated against that endpoint's
  own collection field, \<^verbatim>\<open>meals\<close> for meal-plan. On a path naming meal-plan, a reply
  whose content has \<^verbatim>\<open>name\<close>, \<^verbatim>\<open>description\<close> and a non-empty \<^verbatim>\<open>meals\<close> is
  thrown out with "Invalid plan format: Invalid plan structure: missing required fields",
  because the check reads \<^verbatim>\<open>parsed.days\<close> on every plan path.
\<close>

theorem validate_meal_plan_requires_days:
  "validateResponseStructure parse ts
     (Some (JObj [(''id'', JStr ''chatcmpl-2''),
                  (''choices'', JArr [JObj [(''message'',
                      JObj [(''role'', JStr ''assistant''),
                            (''content'', JObj [(''name'', JStr ''Lean week''),
                                                (''description'', JStr ''Seven days''),
                                                (''meals'', JArr [JStr ''oats''])])])]])]))
     ''chat/completions/meal-plan''
   = Inl (Error ''Invalid plan format: ''
            (Some (Error ''Invalid plan structure: missing required fields'' None)))"
  by (simp add: validateResponseStructure_def check_choice_def plan_check_def plan_try_def
      object_or_parse_def)

lemma validate_meal_plan_with_days_accepted:
  "validateResponseStructure parse ts
     (Some (JObj [(''id'', JStr ''chatcmpl-3''),
                  (''choices'', JArr [JObj [(''message'',
                      JObj [(''role'', JStr ''assistant''),
                            (''content'', JObj [(''name'', JStr ''Lean week''),
                                                (''description'', JStr ''Seven days''),
                                                (''days'', JArr [])])])]])]))
     ''chat/completions/meal-plan'' = Inr True"
  by (simp add: validateResponseStructure_def check_choice_def plan_check_def plan_try_def
      object_or_parse_def)

section \<open>Properties of the sanitizer\<close>

lemma not_space_brace [simp]: "\<not> is_space CHR ''{''" "\<not> is_space CHR ''}''" "\<not> is_space CHR ''`''"
  by (simp_all add: is_space_def)

lemma dropWhile_spaces:
  "\<forall>c\<in>set ws. is_space c \<Longrightarrow> dropWhile is_space (ws @ r) = dropWhile is_space r"
  by (simp add: dropWhile_append2)

lemma json_ci_length: "json_ci s \<Longrightarrow> length s = 4"
  by (induction s rule: json_ci.induct) auto

lemma json_ci_hd_space: "json_ci (c # s) \<Longrightarrow> \<not> is_space c \<and> c \<noteq> CHR ''{''"
  by (induction "c # s" rule: json_ci.induct) (auto simp: is_space_def)

lemma strip_json_fence_tagged:
  assumes "json_ci tag" "\<forall>c\<in>set ws1. is_space c"
  shows "strip_json_fence (''```'' @ tag @ ws1 @ CHR ''{'' # r) = CHR ''{'' # r"
proof -
  have l: "length tag = 4" using assms(1) by (rule json_ci_length)
  then obtain a b c d where tag: "tag = [a, b, c, d]"
    by (cases tag; simp; rename_tac x1 t1; case_tac t1; simp; rename_tac x2 t2; case_tac t2; simp;
        rename_tac x3 t3; case_tac t3; simp)
  show ?thesis using assms unfolding tag strip_json_fence_def
    by (simp add: dropWhile_spaces)
qed

lemma strip_json_fence_plain:
  assumes "\<forall>c\<in>set ws1. is_space c"
  shows "strip_json_fence (''```'' @ ws1 @ CHR ''{'' # r) = ''```'' @ ws1 @ CHR ''{'' # r"
proof -
  have "\<not> json_ci (take 4 (ws1 @ CHR ''{'' # r))"
  proof (cases ws1)
    case Nil
    then show ?thesis using json_ci_hd_space[of "CHR ''{''"] 
      by (cases "take 3 r") (auto simp: take_Cons')
  next
    case (Cons w ws)
    then have "is_space w" using assms by simp
    then show ?thesis using Cons json_ci_hd_space[of w] by (auto simp: take_Cons')
  qed
  then show ?thesis by (simp add: strip_json_fence_def)
qed

lemma strip_fence_plain:
  assumes "\<forall>c\<in>set ws1. is_space c"
  shows "strip_fence (''```'' @ ws1 @ CHR ''{'' # r) = CHR ''{'' # r"
  using assms by (simp add: strip_fence_def dropWhile_spaces)

lemma strip_fence_brace: "strip_fence (CHR ''{'' # r) = CHR ''{'' # r"
  by (simp add: strip_fence_def)

lemma strip_end_fence_ok:
  assumes "\<forall>c\<in>set ws2. is_space c"
  shows "strip_end_fence (b @ CHR ''}'' # ws2 @ ''```'') = b @ ''}''"
proof -
  have "rev (b @ CHR ''}'' # ws2 @ ''```'') = ''```'' @ rev ws2 @ CHR ''}'' # rev b" by simp
  moreover have "dropWhile is_space (rev ws2 @ CHR ''}'' # rev b) = CHR ''}'' # rev b"
    using assms by (simp add: dropWhile_spaces)
  ultimately show ?thesis by (simp add: strip_end_fence_def)
qed

lemma clean_json_start_tight:
  assumes "tight m"
  shows "clean_json_start (CHR ''{'' # m @ ''}'') = CHR ''{'' # m @ ''}''"
  using assms by (cases m) (auto simp: clean_json_start_def tight_def)

lemma clean_json_end_tight:
  assumes "tight m"
  shows "clean_json_end (CHR ''{'' # m @ ''}'') = CHR ''{'' # m @ ''}''"
proof (cases "m = []")
  case True
  then show ?thesis by (simp add: clean_json_end_def)
next
  case False
  then have "\<not> is_space (last m)" using assms by (simp add: tight_def)
  then have "dropWhile is_space (rev m @ ''{'') = rev m @ ''{''"
    using False by (cases "rev m") (auto simp: last_rev hd_rev[symmetric] dest: arg_cong[where f=hd])
  then show ?thesis by (simp add: clean_json_end_def)
qed

lemma trim_braces: "trim (CHR ''{'' # m @ ''}'') = CHR ''{'' # m @ ''}''"
  by (simp add: trim_def)

lemma cleaned_text_fenced:
  assumes "tag = [] \<or> json_ci tag" "\<forall>c\<in>set ws1. is_space c" "\<forall>c\<in>set ws2. is_space c" "tight m"
  shows "cleaned_text (''```'' @ tag @ ws1 @ CHR ''{'' # m @ ''}'' @ ws2 @ ''```'') = CHR ''{'' # m @ ''}''"
proof -
  let ?r = "m @ ''}'' @ ws2 @ ''```''"
  have a: "strip_fence (strip_json_fence (''```'' @ tag @ ws1 @ CHR ''{'' # ?r)) = CHR ''{'' # ?r"
    using assms(1)
  proof
    assume "tag = []"
    then show ?thesis
      using strip_json_fence_plain[OF assms(2), of ?r] strip_fence_plain[OF assms(2), of ?r] by simp
  next
    assume "json_ci tag"
    then show ?thesis
      using strip_json_fence_tagged[OF _ assms(2), of tag ?r] strip_fence_brace[of ?r] by simp
  qed
  have b: "strip_end_fence (CHR ''{'' # ?r) = CHR ''{'' # m @ ''}''"
    using strip_end_fence_ok[OF assms(3), of "CHR ''{'' # m"] by simp
  show ?thesis unfolding cleaned_text_def
    using a b clean_json_start_tight[OF assms(4)] clean_json_end_tight[OF assms(4)] trim_braces[of m]
    by simp
qed

text \<open>
  C6, as amended. On a path that is not a chat-completion path, take the tight text of an
  object that \<^verbatim>\<open>JSON.parse\<close> reads as \<open>obj\<close>, and wrap it: three backticks, no tag
  or the tag \<^verbatim>\<open>json\<close> in any case, white space, the text, white space, three backticks,
  with nothing before the opening marker and nothing after the closing one. The
  runtime rejects the wrapped text, and \<open>cleanOpenAIResponse\<close> returns \<open>obj\<close>.
\<close>

theorem clean_fenced_roundtrip:
  assumes "\<not> str_includes path ''chat/completions''"
    and "tag = [] \<or> json_ci tag"
    and "list_all is_space ws1"
    and "list_all is_space ws2"
    and "tight m"
    and "parse (CHR ''{'' # m @ ''}'') = Some obj"
    and "parse (''```'' @ tag @ ws1 @ CHR ''{'' # m @ ''}'' @ ws2 @ ''```'') = None"
  shows "cleanOpenAIResponse parse
           (''```'' @ tag @ ws1 @ CHR ''{'' # m @ ''}'' @ ws2 @ ''```'') path = Inr obj"
proof -
  have "cleaned_text (''```'' @ tag @ ws1 @ CHR ''{'' # m @ ''}'' @ ws2 @ ''```'')
        = CHR ''{'' # m @ ''}''"
    using assms(2-5) cleaned_text_fenced [of tag ws1 ws2 m] by (simp only: list_all_iff)
  then show ?thesis
    using assms(1,6,7) by (simp add: cleanOpenAIResponse_def)
qed

theorem clean_fenced_roundtrip_witness:
  "\<not> str_includes ''workout-plan'' ''chat/completions''
   \<and> (''json'' = [] \<or> json_ci ''json'')
   \<and> list_all is_space [CHR 0x0A]
   \<and> list_all is_space [CHR 0x0A, CHR 0x20]
   \<and> tight ([CHR 0x22] @ ''a'' @ [CHR 0x22] @ '':1'')
   \<and> sample_parse (CHR ''{'' # ([CHR 0x22] @ ''a'' @ [CHR 0x22] @ '':1'') @ ''}'')
       = Some (JObj [(''a'', JNum 1)])
   \<and> sample_parse (''```'' @ ''json'' @ [CHR 0x0A] @
         CHR ''{'' # ([CHR 0x22] @ ''a'' @ [CHR 0x22] @ '':1'') @ ''}'' @ [CHR 0x0A, CHR 0x20] @ ''```'')
       = None
   \<and> cleanOpenAIResponse sample_parse
        (''```'' @ ''json'' @ [CHR 0x0A] @
         CHR ''{'' # ([CHR 0x22] @ ''a'' @ [CHR 0x22] @ '':1'') @ ''}'' @ [CHR 0x0A, CHR 0x20] @ ''```'')
        ''workout-plan''
       = Inr (JObj [(''a'', JNum 1)])"
proof -
  have h1: "\<not> str_includes ''workout-plan'' ''chat/completions''" by simp
  have h2: "''json'' = [] \<or> json_ci ''json''" by simp
  have h3: "list_all is_space [CHR 0x0A]" by (simp add: is_space_def)
  have h4: "list_all is_space [CHR 0x0A, CHR 0x20]" by (simp add: is_space_def)
  have h5: "tight ([CHR 0x22] @ ''a'' @ [CHR 0x22] @ '':1'')"
    by (simp add: tight_def is_space_def)
  have h6: "sample_parse (CHR ''{'' # ([CHR 0x22] @ ''a'' @ [CHR 0x22] @ '':1'') @ ''}'')
            = Some (JObj [(''a'', JNum 1)])"
    by (simp add: sample_parse_def)
  have h7: "sample_parse (''```'' @ ''json'' @ [CHR 0x0A] @
              CHR ''{'' # ([CHR 0x22] @ ''a'' @ [CHR 0x22] @ '':1'') @ ''}'' @ [CHR 0x0A, CHR 0x20] @ ''```'')
            = None"
    by (simp add: sample_parse_def)
  from clean_fenced_roundtrip [OF h1 h2 h3 h4 h5 h6 h7] h1 h2 h3 h4 h5 h6 h7
  show ?thesis by blast
qed

text \<open>
  C6 as stated fails when white space surrounds the fence: with one line feed after the
  closing marker, \<^verbatim>\<open>/\s*```$/\<close> finds no match, the marker stays, and the second
  parse is of \<^verbatim>\<open>{}\n```\<close>. The serialized object was \<^verbatim>\<open>{}\<close>.
\<close>

theorem clean_fenced_trailing_newline_counterexample:
  "sample_parse ''{}'' = Some (JObj []) \<and>
   cleanOpenAIResponse sample_parse
     (''```json'' @ [CHR 0x0A] @ ''{}'' @ [CHR 0x0A] @ ''```'' @ [CHR 0x0A]) ''workout-plan''
   = Inl (Error ''Failed to clean and parse OpenAI response'' None)"
  by (simp add: cleanOpenAIResponse_def sample_parse_def cleaned_text_def strip_json_fence_def
      strip_fence_def strip_end_fence_def clean_json_start_def clean_json_end_def trim_def
      is_space_def)

lemma cleaned_text_leading_newline:
  "cleaned_text ([CHR 0x0A] @ ''```json'' @ [CHR 0x0A] @ ''{}'' @ [CHR 0x0A] @ ''```'')
   = ''```json'' @ [CHR 0x0A] @ ''{}''"
  by (simp add: cleaned_text_def strip_json_fence_def
      strip_fence_def strip_end_fence_def clean_json_start_def clean_json_end_def trim_def
      is_space_def)

lemma safeJsonParse_clean_fails:
  assumes "text \<noteq> []" and "cleanOpenAIResponse parse text path = Inl e"
  shows "safeJsonParse parse ts text requestId path = ([], Inl e)"
  using assms by (simp add: safeJsonParse_def safeJsonParse_try_def)

lemma safeJsonParse_log_bounded:
  assumes "safeJsonParse parse ts text requestId path = (entries, r)"
    and "entry \<in> set entries" and "(k, Text v) \<in> set (log_data entry)"
    and "k = ''originalText'' \<or> k = ''cleanedText''"
  shows "length v \<le> MAX_LOG_LENGTH"
  using assms
  by (auto simp add: safeJsonParse_def split: if_splits sum.splits json.splits)

text \<open>
  C7. The claim: an unparseable text makes the sanitizer propagate a parse error whose
  diagnostics include an excerpt of the original text of at most 1000 characters. On
  the text \<^verbatim>\<open>not json\<close> for a plan path, \<open>safeJsonParse\<close> logs nothing and the error
  that leaves it is the one thrown by the second call of \<open>cleanOpenAIResponse\<close>, made
  while the arguments of \<^verbatim>\<open>log\<close> were being built: the entry with
  \<^verbatim>\<open>originalText\<close> is never written.
\<close>

theorem safeJsonParse_unparseable_no_excerpt:
  "safeJsonParse sample_parse ts ''not json'' ''req-1'' ''workout-plan''
   = ([], Inl (Error ''Failed to clean and parse OpenAI response'' None))"
  by (simp add: safeJsonParse_def safeJsonParse_try_def cleanOpenAIResponse_def sample_parse_def
      cleaned_text_def strip_json_fence_def
      strip_fence_def strip_end_fence_def clean_json_start_def clean_json_end_def trim_def
      is_space_def)

section \<open>Properties of the translator\<close>

lemma js_get_non_null:
  "b \<noteq> JNull \<Longrightarrow> \<exists>p. js_get (Some b) k = Inr p"
  by (cases b) auto

lemma last_segment_examples:
  "last_segment ''/openai/v1/chat/completions'' = ''completions''"
  "last_segment ''/openai/v1/workout-plan'' = ''workout-plan''"
  "last_segment ''/openai/v1/toString'' = ''toString''"
  by (simp_all add: last_segment_def)

lemma special_found:
  "last_segment path = ''workout-plan'' \<or> last_segment path = ''meal-plan'' \<Longrightarrow>
   \<exists>rule. SPECIAL_PROMPTS (last_segment path) = Own rule"
  by (auto simp: SPECIAL_PROMPTS_def)

text \<open>
  C4, as amended. When the last segment of the path is neither \<^verbatim>\<open>workout-plan\<close> nor
  \<^verbatim>\<open>meal-plan\<close> nor a property name that every object inherits, forward translation
  returns the path and the body unchanged. When the last segment has a rule and the
  body is a value other than \<^verbatim>\<open>null\<close>, take the body's prompt, or the default text
  when the prompt is absent or falsy: if its conversion to a string throws, forward
  translation throws the same; otherwise it returns the path \<^verbatim>\<open>chat/completions\<close>
  and a body made of the model name, the rule's system message, the user message that
  the rule's template builds from the converted prompt, temperature 0.7, the caller's
  \<^verbatim>\<open>max_tokens\<close> (2000 when absent or falsy) and the response format
  \<^verbatim>\<open>json_object\<close>. A string prompt converts to itself.
\<close>

theorem convertToChatCompletion_forward:
  "(last_segment path \<notin> {''workout-plan'', ''meal-plan''} \<union> set object_prototype_names
      \<longrightarrow> convertToChatCompletion ts path body = Inr (path, body))
   \<and> (\<forall>rule b. SPECIAL_PROMPTS (last_segment path) = Own rule \<and> body = Some b \<and> b \<noteq> JNull \<longrightarrow>
        (\<exists>prompt max_tokens.
           js_get body ''prompt'' = Inr prompt \<and> js_get body ''max_tokens'' = Inr max_tokens \<and>
           convertToChatCompletion ts path body =
             (case js_ToString ts (case prompt of
                                     Some v \<Rightarrow> if truthy prompt then v
                                               else JStr ''Create a general plan''
                                   | None \<Rightarrow> JStr ''Create a general plan'') of
                Inl e \<Rightarrow> Inl e
              | Inr text \<Rightarrow>
                  Inr (''chat/completions'',
                    Some (JObj
                      [(''model'', JStr ''gpt-3.5-turbo''),
                       (''messages'', JArr
                          [JObj [(''role'', JStr ''system''), (''content'', JStr (system rule))],
                           JObj [(''role'', JStr ''user''),
                                 (''content'', JStr (user rule text))]]),
                       (''temperature'', JNum (7 / 10)),
                       (''max_tokens'', (case max_tokens of
                                           Some v \<Rightarrow> if truthy max_tokens then v else JNum 2000
                                         | None \<Rightarrow> JNum 2000)),
                       (''response_format'', JObj [(''type'', JStr ''json_object'')])])))))
   \<and> (\<forall>s. js_ToString ts (JStr s) = Inr s)"
proof (intro conjI impI allI)
  assume "last_segment path \<notin> {''workout-plan'', ''meal-plan''} \<union> set object_prototype_names"
  then have "SPECIAL_PROMPTS (last_segment path) = Absent"
    by (simp add: SPECIAL_PROMPTS_def)
  then show "convertToChatCompletion ts path body = Inr (path, body)"
    by (simp add: convertToChatCompletion_def)
next
  fix rule b
  assume a: "SPECIAL_PROMPTS (last_segment path) = Own rule \<and> body = Some b \<and> b \<noteq> JNull"
  then obtain prompt where p: "js_get body ''prompt'' = Inr prompt"
    using js_get_non_null by blast
  from a obtain max_tokens where m: "js_get body ''max_tokens'' = Inr max_tokens"
    using js_get_non_null by blast
  have "convertToChatCompletion ts path body =
             (case js_ToString ts (case prompt of
                                     Some v \<Rightarrow> if truthy prompt then v
                                               else JStr ''Create a general plan''
                                   | None \<Rightarrow> JStr ''Create a general plan'') of
                Inl e \<Rightarrow> Inl e
              | Inr text \<Rightarrow>
                  Inr (''chat/completions'',
                    Some (JObj
                      [(''model'', JStr ''gpt-3.5-turbo''),
                       (''messages'', JArr
                          [JObj [(''role'', JStr ''system''), (''content'', JStr (system rule))],
                           JObj [(''role'', JStr ''user''),
                                 (''content'', JStr (user rule text))]]),
                       (''temperature'', JNum (7 / 10)),
                       (''max_tokens'', (case max_tokens of
                                           Some v \<Rightarrow> if truthy max_tokens then v else JNum 2000
                                         | None \<Rightarrow> JNum 2000)),
                       (''response_format'', JObj [(''type'', JStr ''json_object'')])])))"
    using a p m by (simp add: convertToChatCompletion_def or_default_def split: sum.splits)
  with p m show "\<exists>prompt max_tokens.
           js_get body ''prompt'' = Inr prompt \<and> js_get body ''max_tokens'' = Inr max_tokens \<and>
           convertToChatCompletion ts path body =
             (case js_ToString ts (case prompt of
                                     Some v \<Rightarrow> if truthy prompt then v
                                               else JStr ''Create a general plan''
                                   | None \<Rightarrow> JStr ''Create a general plan'') of
                Inl e \<Rightarrow> Inl e
              | Inr text \<Rightarrow>
                  Inr (''chat/completions'',
                    Some (JObj
                      [(''model'', JStr ''gpt-3.5-turbo''),
                       (''messages'', JArr
                          [JObj [(''role'', JStr ''system''), (''content'', JStr (system rule))],
                           JObj [(''role'', JStr ''user''),
                                 (''content'', JStr (user rule text))]]),
                       (''temperature'', JNum (7 / 10)),
                       (''max_tokens'', (case max_tokens of
                                           Some v \<Rightarrow> if truthy max_tokens then v else JNum 2000
                                         | None \<Rightarrow> JNum 2000)),
                       (''response_format'', JObj [(''type'', JStr ''json_object'')])])))"
    by blast
next
  fix s
  show "js_ToString ts (JStr s) = Inr s" by simp
qed

theorem convertToChatCompletion_forward_witness:
  "last_segment ''/openai/v1/chat/completions''
      \<notin> {''workout-plan'', ''meal-plan''} \<union> set object_prototype_names
   \<and> convertToChatCompletion sample_String ''/openai/v1/chat/completions''
        (Some (JObj [(''messages'', JArr [])]))
       = Inr (''/openai/v1/chat/completions'', Some (JObj [(''messages'', JArr [])]))
   \<and> SPECIAL_PROMPTS (last_segment ''/openai/v1/workout-plan'') = Own workout_prompt
   \<and> convertToChatCompletion sample_String ''/openai/v1/workout-plan''
        (Some (JObj [(''prompt'', JStr ''3-day beginner plan''), (''max_tokens'', JNum 500)]))
       = Inr (''chat/completions'',
           Some (JObj
             [(''model'', JStr ''gpt-3.5-turbo''),
              (''messages'', JArr
                 [JObj [(''role'', JStr ''system''), (''content'', JStr (system workout_prompt))],
                  JObj [(''role'', JStr ''user''),
                        (''content'', JStr (user workout_prompt ''3-day beginner plan''))]]),
              (''temperature'', JNum (7 / 10)),
              (''max_tokens'', JNum 500),
              (''response_format'', JObj [(''type'', JStr ''json_object'')])]))
   \<and> convertToChatCompletion sample_String ''/openai/v1/workout-plan''
        (Some (JObj [(''prompt'', JArr [JStr ''legs'', JObj [(''toString'', JNum 1)]])]))
       = Inl TypeError"
proof -
  let ?b = "Some (JObj [(''prompt'', JStr ''3-day beginner plan''), (''max_tokens'', JNum 500)])"
  let ?c = "Some (JObj [(''prompt'', JArr [JStr ''legs'', JObj [(''toString'', JNum 1)]])])"
  have h1: "last_segment ''/openai/v1/chat/completions''
      \<notin> {''workout-plan'', ''meal-plan''} \<union> set object_prototype_names"
    by (simp add: last_segment_examples object_prototype_names_def)
  have h2: "SPECIAL_PROMPTS (last_segment ''/openai/v1/workout-plan'') = Own workout_prompt"
    by (simp add: last_segment_examples SPECIAL_PROMPTS_def)
  have c1: "convertToChatCompletion sample_String ''/openai/v1/chat/completions''
        (Some (JObj [(''messages'', JArr [])]))
       = Inr (''/openai/v1/chat/completions'', Some (JObj [(''messages'', JArr [])]))"
    using convertToChatCompletion_forward
      [of "''/openai/v1/chat/completions''" sample_String "Some (JObj [(''messages'', JArr [])])"]
      h1 by blast
  note t = convertToChatCompletion_forward
      [THEN conjunct2, THEN conjunct1, rule_format, of "''/openai/v1/workout-plan''" workout_prompt]
  have hb: "SPECIAL_PROMPTS (last_segment ''/openai/v1/workout-plan'') = Own workout_prompt
      \<and> ?b = Some (JObj [(''prompt'', JStr ''3-day beginner plan''), (''max_tokens'', JNum 500)])
      \<and> JObj [(''prompt'', JStr ''3-day beginner plan''), (''max_tokens'', JNum 500)] \<noteq> JNull"
    using h2 by simp
  have hc: "SPECIAL_PROMPTS (last_segment ''/openai/v1/workout-plan'') = Own workout_prompt
      \<and> ?c = Some (JObj [(''prompt'', JArr [JStr ''legs'', JObj [(''toString'', JNum 1)]])])
      \<and> JObj [(''prompt'', JArr [JStr ''legs'', JObj [(''toString'', JNum 1)]])] \<noteq> JNull"
    using h2 by simp
  have c2: "convertToChatCompletion sample_String ''/openai/v1/workout-plan'' ?b
       = Inr (''chat/completions'',
           Some (JObj
             [(''model'', JStr ''gpt-3.5-turbo''),
              (''messages'', JArr
                 [JObj [(''role'', JStr ''system''), (''content'', JStr (system workout_prompt))],
                  JObj [(''role'', JStr ''user''),
                        (''content'', JStr (user workout_prompt ''3-day beginner plan''))]]),
              (''temperature'', JNum (7 / 10)),
              (''max_tokens'', JNum 500),
              (''response_format'', JObj [(''type'', JStr ''json_object'')])]))"
    using t [OF hb, of sample_String] by auto
  have c3: "convertToChatCompletion sample_String ''/openai/v1/workout-plan'' ?c = Inl TypeError"
    using t [OF hc, of sample_String] by auto
  show ?thesis
    by (intro conjI) (rule h1 c1 h2 c2 c3)+
qed

text \<open>
  C4 as stated fails on a \<^verbatim>\<open>null\<close> body for a specialized path, where reading
  \<^verbatim>\<open>body.prompt\<close> throws; on a prompt that has an own \<^verbatim>\<open>toString\<close> property,
  where the template throws; and on a path that ends in \<^verbatim>\<open>toString\<close>, which has no
  rule and yet is not returned unchanged.
\<close>

theorem convertToChatCompletion_counterexample:
  "SPECIAL_PROMPTS (last_segment ''/openai/v1/workout-plan'') = Own workout_prompt
   \<and> convertToChatCompletion sample_String ''/openai/v1/workout-plan'' (Some JNull) = Inl TypeError
   \<and> convertToChatCompletion sample_String ''/openai/v1/workout-plan''
        (Some (JObj [(''prompt'', JObj [(''toString'', JNum 1)])])) = Inl TypeError
   \<and> last_segment ''/openai/v1/toString'' \<notin> {''workout-plan'', ''meal-plan''}
   \<and> convertToChatCompletion sample_String ''/openai/v1/toString'' (Some (JObj []))
       \<noteq> Inr (''/openai/v1/toString'', Some (JObj []))"
  by (simp add: last_segment_examples SPECIAL_PROMPTS_def convertToChatCompletion_def
      object_prototype_names_def or_default_def)

text \<open>
  C5, as amended. For a specialized endpoint and a response object: when
  \<^verbatim>\<open>choices\<close> is missing, falsy or an empty array, backward translation returns the
  response unchanged; when the first choice is an object whose message is an object, it
  returns the message content itself if that is an object, an array or \<^verbatim>\<open>null\<close>, and
  otherwise whatever value \<^verbatim>\<open>JSON.parse\<close> reads from the content, throwing the error
  "Failed to parse special endpoint response: ..." when it does not parse; when the first
  choice has no message, it throws that error around the \<open>TypeError\<close>.
\<close>

theorem transformResponse_backward:
  assumes "last_segment path = ''workout-plan'' \<or> last_segment path = ''meal-plan''"
  shows
  "(\<not> truthy (map_of kvs ''choices'') \<longrightarrow>
      transformResponse parse ts path (Some (JObj kvs)) = Inr (Some (JObj kvs)))
   \<and> (map_of kvs ''choices'' = Some (JArr []) \<longrightarrow>
      transformResponse parse ts path (Some (JObj kvs)) = Inr (Some (JObj kvs)))
   \<and> (\<forall>c0 rest m. map_of kvs ''choices'' = Some (JArr (JObj c0 # rest)) \<and>
          map_of c0 ''message'' = Some (JObj m) \<longrightarrow>
      transformResponse parse ts path (Some (JObj kvs)) =
        (if typeof_object (map_of m ''content'') then Inr (map_of m ''content'')
         else (case parse (js_String ts (map_of m ''content'')) of
                 Some v \<Rightarrow> Inr (Some v)
               | None \<Rightarrow> Inl (Error ''Failed to parse special endpoint response: ''
                               (Some SyntaxError)))))
   \<and> (\<forall>c0 rest. map_of kvs ''choices'' = Some (JArr (JObj c0 # rest)) \<and>
          map_of c0 ''message'' = None \<longrightarrow>
      transformResponse parse ts path (Some (JObj kvs)) =
        Inl (Error ''Failed to parse special endpoint response: '' (Some TypeError)))"
proof -
  obtain rule where r: "SPECIAL_PROMPTS (last_segment path) = Own rule"
    using special_found[OF assms] by blast
  have 1: "\<not> truthy (map_of kvs ''choices'') \<longrightarrow>
      transformResponse parse ts path (Some (JObj kvs)) = Inr (Some (JObj kvs))"
    using r by (simp add: transformResponse_def split: option.splits)
  have 2: "map_of kvs ''choices'' = Some (JArr []) \<longrightarrow>
      transformResponse parse ts path (Some (JObj kvs)) = Inr (Some (JObj kvs))"
    using r by (simp add: transformResponse_def)
  have 3: "transformResponse parse ts path (Some (JObj kvs)) =
        (if typeof_object (map_of m ''content'') then Inr (map_of m ''content'')
         else (case parse (js_String ts (map_of m ''content'')) of
                 Some v \<Rightarrow> Inr (Some v)
               | None \<Rightarrow> Inl (Error ''Failed to parse special endpoint response: ''
                               (Some SyntaxError))))"
    if "map_of kvs ''choices'' = Some (JArr (JObj c0 # rest)) \<and>
          map_of c0 ''message'' = Some (JObj m)" for c0 rest m
  proof (cases "map_of m ''content''")
    case None
    then show ?thesis using r that
      by (simp add: transformResponse_def transformResponse_try_def object_or_parse_def
          JSON_parse_def split: option.splits)
  next
    case (Some c)
    then show ?thesis using r that
      by (cases c)
        (simp_all add: transformResponse_def transformResponse_try_def object_or_parse_def
          JSON_parse_def split: option.splits)
  qed
  have 4: "transformResponse parse ts path (Some (JObj kvs)) =
        Inl (Error ''Failed to parse special endpoint response: '' (Some TypeError))"
    if "map_of kvs ''choices'' = Some (JArr (JObj c0 # rest)) \<and> map_of c0 ''message'' = None"
    for c0 rest
    using r that by (simp add: transformResponse_def transformResponse_try_def)
  from 1 2 3 4 show ?thesis by blast
qed

theorem transformResponse_backward_witness:
  "(last_segment ''/openai/v1/meal-plan'' = ''workout-plan''
      \<or> last_segment ''/openai/v1/meal-plan'' = ''meal-plan'')
   \<and> transformResponse sample_parse sample_String ''/openai/v1/meal-plan''
        (Some (JObj [(''id'', JStr ''chatcmpl-4''),
           (''choices'', JArr [JObj [(''message'',
              JObj [(''role'', JStr ''assistant''), (''content'', JStr ''{}'')])]])]))
       = Inr (Some (JObj []))
   \<and> transformResponse sample_parse sample_String ''/openai/v1/meal-plan''
        (Some (JObj [(''id'', JStr ''chatcmpl-4''),
           (''choices'', JArr [JObj [(''message'',
              JObj [(''role'', JStr ''assistant''),
                    (''content'', JObj [(''name'', JStr ''Lean week'')])])]])]))
       = Inr (Some (JObj [(''name'', JStr ''Lean week'')]))
   \<and> transformResponse sample_parse sample_String ''/openai/v1/meal-plan''
        (Some (JObj [(''id'', JStr ''chatcmpl-4''),
           (''choices'', JArr [JObj [(''message'',
              JObj [(''role'', JStr ''assistant''), (''content'', JStr ''not json'')])]])]))
       = Inl (Error ''Failed to parse special endpoint response: '' (Some SyntaxError))
   \<and> transformResponse sample_parse sample_String ''/openai/v1/meal-plan''
        (Some (JObj [(''id'', JStr ''chatcmpl-4''), (''choices'', JArr [JObj []])]))
       = Inl (Error ''Failed to parse special endpoint response: '' (Some TypeError))
   \<and> transformResponse sample_parse sample_String ''/openai/v1/meal-plan''
        (Some (JObj [(''id'', JStr ''chatcmpl-4'')]))
       = Inr (Some (JObj [(''id'', JStr ''chatcmpl-4'')]))"
proof -
  have h: "last_segment ''/openai/v1/meal-plan'' = ''workout-plan''
      \<or> last_segment ''/openai/v1/meal-plan'' = ''meal-plan''"
    by (simp add: last_segment_def)
  note t = transformResponse_backward [OF h, of _ sample_parse sample_String]
  have a: "transformResponse sample_parse sample_String ''/openai/v1/meal-plan''
        (Some (JObj [(''id'', JStr ''chatcmpl-4''),
           (''choices'', JArr [JObj [(''message'',
              JObj [(''role'', JStr ''assistant''), (''content'', JStr ''{}'')])]])]))
       = Inr (Some (JObj []))"
    using t [of "[(''id'', JStr ''chatcmpl-4''),
           (''choices'', JArr [JObj [(''message'',
              JObj [(''role'', JStr ''assistant''), (''content'', JStr ''{}'')])]])]"]
    by (simp add: sample_parse_def)
  have b: "transformResponse sample_parse sample_String ''/openai/v1/meal-plan''
        (Some (JObj [(''id'', JStr ''chatcmpl-4''),
           (''choices'', JArr [JObj [(''message'',
              JObj [(''role'', JStr ''assistant''),
                    (''content'', JObj [(''name'', JStr ''Lean week'')])])]])]))
       = Inr (Some (JObj [(''name'', JStr ''Lean week'')]))"
    using t [of "[(''id'', JStr ''chatcmpl-4''),
           (''choices'', JArr [JObj [(''message'',
              JObj [(''role'', JStr ''assistant''),
                    (''content'', JObj [(''name'', JStr ''Lean week'')])])]])]"]
    by simp
  have c: "transformResponse sample_parse sample_String ''/openai/v1/meal-plan''
        (Some (JObj [(''id'', JStr ''chatcmpl-4''),
           (''choices'', JArr [JObj [(''message'',
              JObj [(''role'', JStr ''assistant''), (''content'', JStr ''not json'')])]])]))
       = Inl (Error ''Failed to parse special endpoint response: '' (Some SyntaxError))"
    using t [of "[(''id'', JStr ''chatcmpl-4''),
           (''choices'', JArr [JObj [(''message'',
              JObj [(''role'', JStr ''assistant''), (''content'', JStr ''not json'')])]])]"]
    by (simp add: sample_parse_def)
  have d: "transformResponse sample_parse sample_String ''/openai/v1/meal-plan''
        (Some (JObj [(''id'', JStr ''chatcmpl-4''), (''choices'', JArr [JObj []])]))
       = Inl (Error ''Failed to parse special endpoint response: '' (Some TypeError))"
    using t [of "[(''id'', JStr ''chatcmpl-4''), (''choices'', JArr [JObj []])]"]
    by simp
  have e: "transformResponse sample_parse sample_String ''/openai/v1/meal-plan''
        (Some (JObj [(''id'', JStr ''chatcmpl-4'')]))
       = Inr (Some (JObj [(''id'', JStr ''chatcmpl-4'')]))"
    using t [of "[(''id'', JStr ''chatcmpl-4'')]"]
    by simp
  from h a b c d e show ?thesis by blast
qed

text \<open>
  C5 as stated fails when no choice is present: the response comes back unchanged, with
  its envelope, and nothing is thrown. It fails also on a content that parses to a
  number, which is returned.
\<close>

theorem transformResponse_counterexample:
  "(last_segment ''/openai/v1/workout-plan'' = ''workout-plan'')
   \<and> transformResponse sample_parse sample_String ''/openai/v1/workout-plan''
        (Some (JObj [(''id'', JStr ''chatcmpl-5''), (''choices'', JArr [])]))
       = Inr (Some (JObj [(''id'', JStr ''chatcmpl-5''), (''choices'', JArr [])]))
   \<and> transformResponse sample_parse sample_String ''/openai/v1/workout-plan''
        (Some (JObj [(''id'', JStr ''chatcmpl-5''),
           (''choices'', JArr [JObj [(''message'',
              JObj [(''role'', JStr ''assistant''), (''content'', JStr ''5'')])]])]))
       = Inr (Some (JNum 5))"
  by (simp add: last_segment_def SPECIAL_PROMPTS_def transformResponse_def
      transformResponse_try_def object_or_parse_def JSON_parse_def sample_parse_def)


section \<open>Properties of the timeout-enabled proxy\<close>

lemma seconds_120: "show_int TIMEOUT_SECONDS = ''120''"
  by (simp add: show_int_def TIMEOUT_SECONDS_def TIMEOUT_MS_def digit_char_def)

lemma details_text_120: "details_text = ''Request took longer than 120 seconds to complete''"
  by (simp add: details_text_def seconds_120)

lemma run_snoc: "run req (evs @ [ev]) = step req (run req evs) ev"
  by (simp add: run_def)

lemma initial_simps:
  "phase (initial req) = AwaitingFetch" "timer_pending (initial req)" "writes (initial req) = []"
  "unhandled (initial req) = []"
  by (simp_all add: initial_def)

lemma res_json_first: "writes s = [] \<Longrightarrow> res_json r s = (s\<lparr>writes := [r]\<rparr>, None)"
  by (simp add: res_json_def)

lemma res_json_later: "writes s \<noteq> [] \<Longrightarrow> res_json r s = (s, Some headers_sent_error)"
  by (simp add: res_json_def)

lemma last_write_writes:
  "writes (last_write r s) = (if writes s = [] then [r] else writes s)"
  by (simp add: last_write_def res_json_def)

lemma last_write_phase: "phase (last_write r s) = Finished"
  by (simp add: last_write_def res_json_def)

lemma catch_block_phase: "phase (catch_block req now error s) = Finished"
  by (simp add: catch_block_def Let_def last_write_phase)

lemma catch_block_sent: "writes s \<noteq> [] \<Longrightarrow> writes (catch_block req now error s) = writes s"
  by (simp add: catch_block_def Let_def last_write_writes)

lemma sent_stays: "writes s \<noteq> [] \<Longrightarrow> writes (step req s ev) = writes s"
  by (cases ev; cases "phase s")
    (simp_all add: Let_def catch_block_sent res_json_def)

lemma sent_stays_all: "writes s \<noteq> [] \<Longrightarrow> writes (foldl (step req) s evs) = writes s"
  by (induction evs arbitrary: s) (simp_all add: sent_stays)

lemma step_at_most_one: "length (writes s) \<le> 1 \<Longrightarrow> length (writes (step req s ev)) \<le> 1"
proof (cases "writes s = []")
  case False
  assume "length (writes s) \<le> 1"
  with False show ?thesis by (simp add: sent_stays)
next
  case True
  then show ?thesis
    by (cases ev; cases "phase s")
      (simp_all add: Let_def catch_block_def last_write_writes res_json_def)
qed

lemma at_most_one_response: "length (writes (run req evs)) \<le> 1"
proof (induction evs rule: rev_induct)
  case Nil
  show ?case by (simp add: run_def initial_simps)
next
  case (snoc ev evs)
  then show ?case
    using step_at_most_one [of "run req evs" req ev] by (simp add: run_snoc)
qed

text \<open>
  C1. The claim: after any one of the 504 timeout write, the 500 error write and the
  success write has occurred, no further response write occurs. When the callback of
  \<^verbatim>\<open>res.setTimeout\<close> has written its 504 and the handler's abort timer then fires, the
  handler's \<^verbatim>\<open>catch\<close> block logs its own timeout and calls
  \<^verbatim>\<open>res.status(504).json(..)\<close> again: the runtime sends nothing for that call and
  throws, and the exception leaves the handler with nothing to catch it.
\<close>

theorem second_write_after_timeout_throws:
  "writes (run sample_request [ResponseTimeout 119999, FetchTimer 120002]) =
     [\<lparr>res_status = 504,
       res_body = timeout_error_body ''Server response timeout reached'' ''req-1''\<rparr>]
   \<and> map log_type (logs (run sample_request [ResponseTimeout 119999, FetchTimer 120002])) =
     [''OPENAI_REQUEST'', ''TIMEOUT'', ''FETCH_TIMEOUT'', ''TIMEOUT'']
   \<and> unhandled (run sample_request [ResponseTimeout 119999, FetchTimer 120002]) =
     [headers_sent_error]"
  by (simp add: run_def initial_def sample_request_def catch_block_def Let_def last_write_def
      res_json_def)

lemma late_reply_after_timeout_throws_twice:
  "writes (run sample_request
     [ResponseTimeout 119999, FetchResolved 120000 200, BodyParsed 120001 (JObj [])]) =
     [\<lparr>res_status = 504,
       res_body = timeout_error_body ''Server response timeout reached'' ''req-1''\<rparr>]
   \<and> unhandled (run sample_request
     [ResponseTimeout 119999, FetchResolved 120000 200, BodyParsed 120001 (JObj [])]) =
     [headers_sent_error]"
  by (simp add: run_def initial_def sample_request_def catch_block_def Let_def last_write_def
      res_json_def headers_sent_error_def)

text \<open>
  C2, as amended. When the upstream fetch is still pending and nothing has been sent,
  and one of the two 120-second timers fires, the gateway responds with status 504 and
  a body of type \<^verbatim>\<open>timeout_error\<close> whose details name the configured deadline of 120
  seconds and not the elapsed duration. The elapsed duration goes to the log entries
  that the timer writes (\<^verbatim>\<open>FETCH_TIMEOUT\<close> and \<^verbatim>\<open>TIMEOUT\<close> for the handler's abort
  timer, \<^verbatim>\<open>TIMEOUT\<close> for the server-level timeout), each with the deadline. Whatever
  happens later, the other timer and the settlement of the aborted call included, no
  further response is sent.
\<close>

theorem fetch_timeout_response:
  assumes "phase s = AwaitingFetch" and "timer_pending s" and "writes s = []"
  shows "writes (step req s (FetchTimer now)) =
           [\<lparr>res_status = 504,
             res_body = JObj [(''error'', JObj
               [(''message'', JStr ''OpenAI request timeout reached''),
                (''type'', JStr ''timeout_error''),
                (''code'', JStr ''timeout_error''),
                (''details'', JStr ''Request took longer than 120 seconds to complete''),
                (''requestId'', JStr (req_id req))])]\<rparr>]
         \<and> logs (step req s (FetchTimer now)) =
             logs s @
             [\<lparr>log_requestId = req_id req, log_type = ''FETCH_TIMEOUT'',
               log_message = ''OpenAI fetch request timeout reached'',
               log_data = [(''duration'', Text (show_int (now - req_startTime req) @ ''ms'')),
                           (''timeout'', Text ''120s'')]\<rparr>,
              \<lparr>log_requestId = req_id req, log_type = ''TIMEOUT'',
               log_message = ''OpenAI request timeout reached'',
               log_data = [(''duration'', Text (show_int (now - req_startTime req) @ ''ms'')),
                           (''timeout'', Text ''120s'')]\<rparr>]
         \<and> writes (step req s (ResponseTimeout now)) =
           [\<lparr>res_status = 504,
             res_body = JObj [(''error'', JObj
               [(''message'', JStr ''Server response timeout reached''),
                (''type'', JStr ''timeout_error''),
                (''code'', JStr ''timeout_error''),
                (''details'', JStr ''Request took longer than 120 seconds to complete''),
                (''requestId'', JStr (req_id req))])]\<rparr>]
         \<and> logs (step req s (ResponseTimeout now)) =
             logs s @
             [\<lparr>log_requestId = req_id req, log_type = ''TIMEOUT'',
               log_message = ''Server response timeout reached'',
               log_data = [(''duration'', Text (show_int (now - req_startTime req) @ ''ms'')),
                           (''path'', Text (req_path req)),
                           (''timeout'', Text ''120s'')]\<rparr>]
         \<and> (\<forall>later. writes (foldl (step req) (step req s (FetchTimer now)) later)
               = writes (step req s (FetchTimer now)))
         \<and> (\<forall>later. writes (foldl (step req) (step req s (ResponseTimeout now)) later)
               = writes (step req s (ResponseTimeout now)))"
proof -
  have w1: "writes (step req s (FetchTimer now)) =
           [\<lparr>res_status = 504,
             res_body = JObj [(''error'', JObj
               [(''message'', JStr ''OpenAI request timeout reached''),
                (''type'', JStr ''timeout_error''),
                (''code'', JStr ''timeout_error''),
                (''details'', JStr ''Request took longer than 120 seconds to complete''),
                (''requestId'', JStr (req_id req))])]\<rparr>]"
    using assms
    by (simp add: catch_block_def Let_def last_write_writes timeout_error_body_def
        details_text_120)
  have l1: "logs (step req s (FetchTimer now)) =
             logs s @
             [\<lparr>log_requestId = req_id req, log_type = ''FETCH_TIMEOUT'',
               log_message = ''OpenAI fetch request timeout reached'',
               log_data = [(''duration'', Text (show_int (now - req_startTime req) @ ''ms'')),
                           (''timeout'', Text ''120s'')]\<rparr>,
              \<lparr>log_requestId = req_id req, log_type = ''TIMEOUT'',
               log_message = ''OpenAI request timeout reached'',
               log_data = [(''duration'', Text (show_int (now - req_startTime req) @ ''ms'')),
                           (''timeout'', Text ''120s'')]\<rparr>]"
    using assms
    by (simp add: catch_block_def Let_def last_write_def res_json_def seconds_120)
  have w2: "writes (step req s (ResponseTimeout now)) =
           [\<lparr>res_status = 504,
             res_body = JObj [(''error'', JObj
               [(''message'', JStr ''Server response timeout reached''),
                (''type'', JStr ''timeout_error''),
                (''code'', JStr ''timeout_error''),
                (''details'', JStr ''Request took longer than 120 seconds to complete''),
                (''requestId'', JStr (req_id req))])]\<rparr>]"
    using assms
    by (simp add: res_json_def timeout_error_body_def details_text_120)
  have l2: "logs (step req s (ResponseTimeout now)) =
             logs s @
             [\<lparr>log_requestId = req_id req, log_type = ''TIMEOUT'',
               log_message = ''Server response timeout reached'',
               log_data = [(''duration'', Text (show_int (now - req_startTime req) @ ''ms'')),
                           (''path'', Text (req_path req)),
                           (''timeout'', Text ''120s'')]\<rparr>]"
    using assms by (simp add: res_json_def seconds_120)
  have n1: "writes (step req s (FetchTimer now)) \<noteq> []" using w1 by simp
  have n2: "writes (step req s (ResponseTimeout now)) \<noteq> []" using w2 by simp
  have f1: "\<forall>later. writes (foldl (step req) (step req s (FetchTimer now)) later)
               = writes (step req s (FetchTimer now))"
    using sent_stays_all [OF n1] by blast
  have f2: "\<forall>later. writes (foldl (step req) (step req s (ResponseTimeout now)) later)
               = writes (step req s (ResponseTimeout now))"
    using sent_stays_all [OF n2] by blast
  show ?thesis
    by (intro conjI) (rule w1 l1 w2 l2 f1 f2)+
qed

theorem fetch_timeout_response_witness:
  "phase (initial sample_request) = AwaitingFetch
   \<and> timer_pending (initial sample_request)
   \<and> writes (initial sample_request) = []
   \<and> writes (run sample_request [FetchTimer 120003]) =
       [\<lparr>res_status = 504,
         res_body = JObj [(''error'', JObj
           [(''message'', JStr ''OpenAI request timeout reached''),
            (''type'', JStr ''timeout_error''),
            (''code'', JStr ''timeout_error''),
            (''details'', JStr ''Request took longer than 120 seconds to complete''),
            (''requestId'', JStr ''req-1'')])]\<rparr>]
   \<and> writes (run sample_request
        [ResponseTimeout 119999, FetchTimer 120003, FetchRejected 130000
           \<lparr>err_name = ''FetchError'', err_message = ''socket hang up'', err_stack = []\<rparr>]) =
       [\<lparr>res_status = 504,
         res_body = JObj [(''error'', JObj
           [(''message'', JStr ''Server response timeout reached''),
            (''type'', JStr ''timeout_error''),
            (''code'', JStr ''timeout_error''),
            (''details'', JStr ''Request took longer than 120 seconds to complete''),
            (''requestId'', JStr ''req-1'')])]\<rparr>]"
proof -
  have h1: "phase (initial sample_request) = AwaitingFetch" by (simp add: initial_simps)
  have h2: "timer_pending (initial sample_request)" by (simp add: initial_simps)
  have h3: "writes (initial sample_request) = []" by (simp add: initial_simps)
  have r: "req_id sample_request = ''req-1''" by (simp add: sample_request_def)
  note t = fetch_timeout_response [OF h1 h2 h3, of sample_request]
  have a: "writes (run sample_request [FetchTimer 120003]) =
       [\<lparr>res_status = 504,
         res_body = JObj [(''error'', JObj
           [(''message'', JStr ''OpenAI request timeout reached''),
            (''type'', JStr ''timeout_error''),
            (''code'', JStr ''timeout_error''),
            (''details'', JStr ''Request took longer than 120 seconds to complete''),
            (''requestId'', JStr ''req-1'')])]\<rparr>]"
    using t [of 120003, THEN conjunct1] by (simp add: run_def r)
  have b0: "writes (foldl (step sample_request)
              (step sample_request (initial sample_request) (ResponseTimeout 119999))
              [FetchTimer 120003, FetchRejected 130000
                \<lparr>err_name = ''FetchError'', err_message = ''socket hang up'', err_stack = []\<rparr>])
            = writes (step sample_request (initial sample_request) (ResponseTimeout 119999))"
    using t [of 119999] by blast
  have b1: "writes (step sample_request (initial sample_request) (ResponseTimeout 119999)) =
       [\<lparr>res_status = 504,
         res_body = JObj [(''error'', JObj
           [(''message'', JStr ''Server response timeout reached''),
            (''type'', JStr ''timeout_error''),
            (''code'', JStr ''timeout_error''),
            (''details'', JStr ''Request took longer than 120 seconds to complete''),
            (''requestId'', JStr ''req-1'')])]\<rparr>]"
    using t [of 119999] by (simp add: r)
  have b: "writes (run sample_request
        [ResponseTimeout 119999, FetchTimer 120003, FetchRejected 130000
           \<lparr>err_name = ''FetchError'', err_message = ''socket hang up'', err_stack = []\<rparr>]) =
       [\<lparr>res_status = 504,
         res_body = JObj [(''error'', JObj
           [(''message'', JStr ''Server response timeout reached''),
            (''type'', JStr ''timeout_error''),
            (''code'', JStr ''timeout_error''),
            (''details'', JStr ''Request took longer than 120 seconds to complete''),
            (''requestId'', JStr ''req-1'')])]\<rparr>]"
    using b0 b1 by (simp add: run_def)
  show ?thesis
    by (intro conjI) (rule h1 h2 h3 a b)+
qed

text \<open>
  C2 as stated fails on the elapsed duration: after 120003 ms the details of the body
  are the fixed sentence about 120 seconds, in which the duration does not occur.
\<close>

theorem timeout_details_counterexample:
  "writes (run sample_request [FetchTimer 120003]) =
     [\<lparr>res_status = 504,
       res_body = JObj [(''error'', JObj
         [(''message'', JStr ''OpenAI request timeout reached''),
          (''type'', JStr ''timeout_error''),
          (''code'', JStr ''timeout_error''),
          (''details'', JStr ''Request took longer than 120 seconds to complete''),
          (''requestId'', JStr ''req-1'')])]\<rparr>]
   \<and> show_int (120003 - req_startTime sample_request) = ''120003''
   \<and> \<not> str_includes ''Request took longer than 120 seconds to complete'' ''120003''"
  by (simp add: run_def initial_def sample_request_def catch_block_def Let_def last_write_def
      res_json_def timeout_error_body_def details_text_120 show_int_def digit_char_def)

section \<open>Properties of what the two variants send\<close>

lemma full_error_timeout: "full_error (timeout_error_body message requestId) requestId"
  by (simp add: full_error_def typed_error_def error_fields_def timeout_error_body_def)

lemma full_error_proxy: "full_error (proxy_error_body details requestId) requestId"
  by (simp add: full_error_def typed_error_def error_fields_def proxy_error_body_def)

lemma full_error_combined_timeout:
  "full_error (combined_timeout_body requestId path timestamp) requestId"
  by (simp add: full_error_def typed_error_def error_fields_def combined_timeout_body_def)

lemma typed_error_bodies:
  "typed_error (parse_error_body details)" "typed_error (global_error_body message)"
  "typed_error (internal_error_body message)"
  "typed_error (combined_timeout_body requestId path timestamp)"
  by (simp_all add: typed_error_def error_fields_def parse_error_body_def global_error_body_def
      internal_error_body_def combined_timeout_body_def)

lemma catch_block_first:
  "writes s = [] \<Longrightarrow>
   \<exists>r. writes (catch_block req now error s) = [r] \<and> res_status r \<in> {500, 504}
       \<and> full_error (res_body r) (req_id req)"
  by (simp add: catch_block_def Let_def last_write_writes full_error_timeout full_error_proxy)

lemma step_first_response:
  assumes "writes s = []"
  shows "writes (step req s ev) = []
         \<or> (\<exists>r. writes (step req s ev) = [r]
              \<and> (is_body_parsed (res_body r) ev
                  \<or> (res_status r \<in> {500, 504} \<and> full_error (res_body r) (req_id req))))"
proof (cases ev)
  case (ResponseTimeout now)
  then show ?thesis using assms by (simp add: res_json_def full_error_timeout)
next
  case (FetchTimer now)
  then show ?thesis
    using assms catch_block_first [of "s\<lparr>timer_pending := False, aborted := True,
        logs := logs s @
          [\<lparr>log_requestId = req_id req, log_type = ''FETCH_TIMEOUT'',
            log_message = ''OpenAI fetch request timeout reached'',
            log_data = [(''duration'', Text (show_int (now - req_startTime req) @ ''ms'')),
                        (''timeout'', Text (show_int TIMEOUT_SECONDS @ ''s''))]\<rparr>]\<rparr>" req now]
    by (auto simp add: Let_def)
next
  case (FetchResolved now st)
  then show ?thesis using assms by simp
next
  case (FetchRejected now error)
  then show ?thesis using assms catch_block_first [of s req now error] by auto
next
  case (BodyParsed now data)
  then show ?thesis using assms by (cases "phase s") (simp_all add: res_json_def)
next
  case (BodyRejected now error)
  then show ?thesis
    using assms catch_block_first [of s req now error] by (cases "phase s") auto
qed

lemma run_responses:
  "\<forall>r\<in>set (writes (run req evs)).
      list_ex (is_body_parsed (res_body r)) evs
      \<or> (res_status r \<in> {500, 504} \<and> full_error (res_body r) (req_id req))"
proof (induction evs rule: rev_induct)
  case Nil
  show ?case by (simp add: run_def initial_simps)
next
  case (snoc ev evs)
  show ?case
  proof (cases "writes (run req evs) = []")
    case False
    then have "writes (run req (evs @ [ev])) = writes (run req evs)"
      by (simp add: run_snoc sent_stays)
    with snoc.IH show ?thesis by auto
  next
    case True
    from step_first_response [OF True, of req ev] show ?thesis
      by (auto simp add: run_snoc)
  qed
qed

lemma combined_sent_stays:
  "c_writes s \<noteq> [] \<Longrightarrow> c_writes (combined_step req s ev) = c_writes s"
  by (cases ev) (simp_all add: combined_json_def combined_catch_def)

lemma combined_sent_stays_all:
  "c_writes s \<noteq> [] \<Longrightarrow> c_writes (foldl (combined_step req) s evs) = c_writes s"
  by (induction evs arbitrary: s) (simp_all add: combined_sent_stays)

lemma combined_step_first_response:
  assumes "c_writes s = []"
  shows "c_writes (combined_step req s ev) = []
         \<or> (\<exists>r. c_writes (combined_step req s ev) = [r]
              \<and> ((res_status r = 200 \<and> is_upstream_replied (res_body r) ev)
                  \<or> (res_status r = 500 \<and> typed_error (res_body r))
                  \<or> (res_status r = 504 \<and> full_error (res_body r) (req_id req))))"
  using assms
  by (cases ev)
    (simp_all add: combined_json_def combined_catch_def typed_error_bodies
      full_error_combined_timeout)

lemma combined_run_responses:
  "\<forall>r\<in>set (c_writes (foldl (combined_step req) combined_initial evs)).
      (res_status r = 200 \<and> list_ex (is_upstream_replied (res_body r)) evs)
      \<or> (res_status r = 500 \<and> typed_error (res_body r))
      \<or> (res_status r = 504 \<and> full_error (res_body r) (req_id req))"
proof (induction evs rule: rev_induct)
  case Nil
  show ?case by (simp add: combined_initial_def)
next
  case (snoc ev evs)
  let ?s = "foldl (combined_step req) combined_initial evs"
  show ?case
  proof (cases "c_writes ?s = []")
    case False
    then have "c_writes (foldl (combined_step req) combined_initial (evs @ [ev])) = c_writes ?s"
      by (simp add: combined_sent_stays)
    with snoc.IH show ?thesis by auto
  next
    case True
    from combined_step_first_response [OF True, of req ev] show ?thesis
      by auto
  qed
qed

lemma json_parser_middleware_id:
  "json_parser_middleware parse ts syntax_message req = Inr req1 \<Longrightarrow> req_id req1 = req_id req"
  by (auto simp add: json_parser_middleware_def split: if_splits sum.splits)

lemma invoked_only:
  "invoked f \<Longrightarrow>
   f \<in> {Log, TrackingMiddleware, TimeoutMiddleware, TimeoutCallback, JsonParserMiddleware,
        GlobalErrorHandler, CatchAllRoute, ListenCallback}"
proof (induction rule: invoked.induct)
  case (registered f)
  then show ?case by (auto simp add: registered_def)
next
  case (called f g)
  then show ?case by (cases f) auto
qed

text \<open>
  C3. In the combined variant neither the translation function nor the sanitizer, the
  validator, the safe parser or the backward transformer is ever invoked: nothing that
  the framework invokes calls them. For every request that reaches the catch-all
  route, whatever its path, the plan paths included, the body sent upstream is the
  value read from the request's own body (or no body when the request had none), under
  the request's own path and method, and the response written is the upstream's JSON
  value as it is, with status 200, whatever happens afterwards.
\<close>

theorem catch_all_untranslated:
  "\<not> invoked ConvertToChatCompletion \<and> \<not> invoked SafeJsonParse \<and> \<not> invoked CleanOpenAIResponse
   \<and> \<not> invoked ValidateResponseStructure \<and> \<not> invoked TransformResponse
   \<and> (\<forall>v data later.
        truthy (req_body req) \<and> JSON_parse parse ts (req_body req) = Inr v \<longrightarrow>
        combined_app parse ts syntax_message BodyParserNext req (UpstreamReplied data # later) =
          (Some \<lparr>up_url = OPENAI_BASE_URL @ req_path req, up_method = req_method req,
                 up_body = Some v\<rparr>,
           [\<lparr>res_status = 200, res_body = data\<rparr>]))
   \<and> (\<forall>data later.
        \<not> truthy (req_body req) \<longrightarrow>
        combined_app parse ts syntax_message BodyParserNext req (UpstreamReplied data # later) =
          (Some \<lparr>up_url = OPENAI_BASE_URL @ req_path req, up_method = req_method req,
                 up_body = req_body req\<rparr>,
           [\<lparr>res_status = 200, res_body = data\<rparr>]))"
proof -
  have n: "\<not> invoked ConvertToChatCompletion \<and> \<not> invoked SafeJsonParse
      \<and> \<not> invoked CleanOpenAIResponse \<and> \<not> invoked ValidateResponseStructure
      \<and> \<not> invoked TransformResponse"
    using invoked_only by fastforce
  have first: "c_writes (foldl (combined_step r1) combined_initial (UpstreamReplied data # later))
        = [\<lparr>res_status = 200, res_body = data\<rparr>]" for r1 data later
    using combined_sent_stays_all
      [of "combined_step r1 combined_initial (UpstreamReplied data)" r1 later]
    by (simp add: combined_initial_def combined_json_def)
  have a: "combined_app parse ts syntax_message BodyParserNext req (UpstreamReplied data # later) =
          (Some \<lparr>up_url = OPENAI_BASE_URL @ req_path req, up_method = req_method req,
                 up_body = Some v\<rparr>,
           [\<lparr>res_status = 200, res_body = data\<rparr>])"
    if "truthy (req_body req) \<and> JSON_parse parse ts (req_body req) = Inr v"
    for v data later
    using that first
    by (simp add: combined_app_def json_parser_middleware_def proxy_all_request_def)
  have b: "combined_app parse ts syntax_message BodyParserNext req (UpstreamReplied data # later) =
          (Some \<lparr>up_url = OPENAI_BASE_URL @ req_path req, up_method = req_method req,
                 up_body = req_body req\<rparr>,
           [\<lparr>res_status = 200, res_body = data\<rparr>])"
    if "\<not> truthy (req_body req)" for data later
    using that first
    by (simp add: combined_app_def json_parser_middleware_def proxy_all_request_def)
  from n a b show ?thesis by blast
qed

theorem catch_all_untranslated_witness:
  "truthy (req_body (sample_request\<lparr>req_path := ''/openai/v1/workout-plan'',
       req_body := Some (JStr ''{}'')\<rparr>))
   \<and> JSON_parse sample_parse sample_String
        (req_body (sample_request\<lparr>req_path := ''/openai/v1/workout-plan'',
           req_body := Some (JStr ''{}'')\<rparr>)) = Inr (JObj [])
   \<and> combined_app sample_parse sample_String sample_syntax_message BodyParserNext
        (sample_request\<lparr>req_path := ''/openai/v1/workout-plan'',
           req_body := Some (JStr ''{}'')\<rparr>)
        (UpstreamReplied (JObj [(''id'', JStr ''chatcmpl-7''), (''choices'', JArr [])])
         # [UpstreamFailed ''socket hang up'', ServerTimeout 120000 ''2025-01-01T00:02:00.000Z''])
      = (Some \<lparr>up_url = ''https://api.openai.com/v1/openai/v1/workout-plan'',
               up_method = ''POST'', up_body = Some (JObj [])\<rparr>,
         [\<lparr>res_status = 200,
           res_body = JObj [(''id'', JStr ''chatcmpl-7''), (''choices'', JArr [])]\<rparr>])
   \<and> \<not> truthy (req_body (sample_request\<lparr>req_method := ''GET'', req_body := None\<rparr>))
   \<and> combined_app sample_parse sample_String sample_syntax_message BodyParserNext
        (sample_request\<lparr>req_method := ''GET'', req_body := None\<rparr>)
        (UpstreamReplied (JObj [(''data'', JArr [])]) # [])
      = (Some \<lparr>up_url = ''https://api.openai.com/v1/openai/v1/chat/completions'',
               up_method = ''GET'', up_body = None\<rparr>,
         [\<lparr>res_status = 200, res_body = JObj [(''data'', JArr [])]\<rparr>])
   \<and> \<not> invoked TransformResponse"
proof -
  let ?req = "sample_request\<lparr>req_path := ''/openai/v1/workout-plan'',
       req_body := Some (JStr ''{}'')\<rparr>"
  let ?get = "sample_request\<lparr>req_method := ''GET'', req_body := None\<rparr>"
  have h1: "truthy (req_body ?req)" by simp
  have h2: "JSON_parse sample_parse sample_String (req_body ?req) = Inr (JObj [])"
    by (simp add: JSON_parse_def sample_parse_def)
  have h4: "\<not> truthy (req_body ?get)" by simp
  have u1: "OPENAI_BASE_URL @ req_path ?req = ''https://api.openai.com/v1/openai/v1/workout-plan''"
    by (simp add: OPENAI_BASE_URL_def)
  have u2: "OPENAI_BASE_URL @ req_path ?get
            = ''https://api.openai.com/v1/openai/v1/chat/completions''"
    by (simp add: OPENAI_BASE_URL_def sample_request_def)
  have m1: "req_method ?req = ''POST''" by (simp add: sample_request_def)
  have m2: "req_method ?get = ''GET''" by simp
  have b2: "req_body ?get = None" by simp
  note t = catch_all_untranslated [of ?req sample_parse sample_String sample_syntax_message]
  note g = catch_all_untranslated [of ?get sample_parse sample_String sample_syntax_message]
  have n: "\<not> invoked TransformResponse" using t by blast
  have a: "combined_app sample_parse sample_String sample_syntax_message BodyParserNext ?req
        (UpstreamReplied (JObj [(''id'', JStr ''chatcmpl-7''), (''choices'', JArr [])])
         # [UpstreamFailed ''socket hang up'', ServerTimeout 120000 ''2025-01-01T00:02:00.000Z''])
      = (Some \<lparr>up_url = OPENAI_BASE_URL @ req_path ?req, up_method = req_method ?req,
               up_body = Some (JObj [])\<rparr>,
         [\<lparr>res_status = 200,
           res_body = JObj [(''id'', JStr ''chatcmpl-7''), (''choices'', JArr [])]\<rparr>])"
    using t h1 h2 by blast
  have b: "combined_app sample_parse sample_String sample_syntax_message BodyParserNext ?get
        (UpstreamReplied (JObj [(''data'', JArr [])]) # [])
      = (Some \<lparr>up_url = OPENAI_BASE_URL @ req_path ?get, up_method = req_method ?get,
               up_body = req_body ?get\<rparr>,
         [\<lparr>res_status = 200, res_body = JObj [(''data'', JArr [])]\<rparr>])"
    using g h4 by blast
  show ?thesis
    apply (intro conjI)
         apply (rule h1)
        apply (rule h2)
       apply (rule a [unfolded u1 m1])
      apply (rule h4)
     apply (rule b [unfolded u2 m2 b2])
    apply (rule n)
    done
qed


lemma translation_would_differ:
  "convertToChatCompletion sample_String ''/openai/v1/workout-plan'' (Some (JObj []))
     \<noteq> Inr (''/openai/v1/workout-plan'', Some (JObj []))
   \<and> transformResponse sample_parse sample_String ''/openai/v1/workout-plan''
       (Some (JObj [(''id'', JStr ''chatcmpl-7''),
          (''choices'', JArr [JObj [(''message'', JObj [(''content'', JStr ''{}'')])]])]))
     = Inr (Some (JObj []))"
  by (simp add: convertToChatCompletion_def transformResponse_def transformResponse_try_def
      object_or_parse_def JSON_parse_def sample_parse_def SPECIAL_PROMPTS_def last_segment_def
      or_default_def)


text \<open>
  C10, as amended. Every response that the route handler and the timeout callback of
  the timeout-enabled proxy send is either the upstream's reply passed on or an error
  of status 500 or 504 whose body has the shape
  \<^verbatim>\<open>{ error: { message, type, code, details, requestId } }\<close>, with a type of the
  taxonomy, the code equal to the type and the request's own identifier. Every response that the middleware and the routes of the
  combined variant send is either the upstream's reply passed on with status 200, or
  an error of status 400 or 500 whose body has an \<^verbatim>\<open>error\<close> member with a message and
  a type among \<^verbatim>\<open>parse_error\<close>, \<^verbatim>\<open>timeout_error\<close>, \<^verbatim>\<open>proxy_error\<close> and
  \<^verbatim>\<open>internal_error\<close>, or the 504 of the timeout callback, whose body has the full
  shape.
\<close>

theorem error_bodies_shape:
  "(\<forall>r\<in>set (writes (run req evs)).
      list_ex (is_body_parsed (res_body r)) evs
      \<or> (res_status r \<in> {500, 504} \<and> full_error (res_body r) (req_id req)))
   \<and> (\<forall>r\<in>set (snd (combined_app parse ts syntax_message bp req cevs)).
      (res_status r = 200 \<and> list_ex (is_upstream_replied (res_body r)) cevs)
      \<or> (res_status r \<in> {400, 500} \<and> typed_error (res_body r))
      \<or> (res_status r = 504 \<and> full_error (res_body r) (req_id req)))"
proof
  show "\<forall>r\<in>set (writes (run req evs)).
      list_ex (is_body_parsed (res_body r)) evs
      \<or> (res_status r \<in> {500, 504} \<and> full_error (res_body r) (req_id req))"
    by (rule run_responses)
next
  show "\<forall>r\<in>set (snd (combined_app parse ts syntax_message bp req cevs)).
      (res_status r = 200 \<and> list_ex (is_upstream_replied (res_body r)) cevs)
      \<or> (res_status r \<in> {400, 500} \<and> typed_error (res_body r))
      \<or> (res_status r = 504 \<and> full_error (res_body r) (req_id req))"
  proof (cases bp)
    case (BodyParserError msg)
    then show ?thesis by (simp add: combined_app_def typed_error_bodies)
  next
    case BodyParserNext
    show ?thesis
    proof (cases "json_parser_middleware parse ts syntax_message req")
      case (Inl r0)
      then have "res_status r0 = 400 \<and> typed_error (res_body r0)"
        by (auto simp add: json_parser_middleware_def typed_error_bodies
            split: if_splits sum.splits)
      with Inl BodyParserNext show ?thesis by (simp add: combined_app_def)
    next
      case (Inr req1)
      then have "req_id req1 = req_id req" by (rule json_parser_middleware_id)
      with Inr BodyParserNext combined_run_responses [of req1 cevs] show ?thesis
        by (auto simp add: combined_app_def)
    qed
  qed
qed


theorem error_bodies_shape_witness:
  "writes (run sample_request [FetchRejected 10
       \<lparr>err_name = ''FetchError'', err_message = ''socket hang up'', err_stack = []\<rparr>])
     = [\<lparr>res_status = 500, res_body = proxy_error_body ''socket hang up'' ''req-1''\<rparr>]
   \<and> full_error (proxy_error_body ''socket hang up'' ''req-1'') ''req-1''
   \<and> snd (combined_app sample_parse sample_String sample_syntax_message BodyParserNext
        (sample_request\<lparr>req_body := Some (JStr ''{invalid:json}'')\<rparr>) [])
     = [\<lparr>res_status = 400,
         res_body = parse_error_body ''Unexpected token i in JSON at position 1''\<rparr>]
   \<and> typed_error (parse_error_body ''Unexpected token i in JSON at position 1'')"
proof -
  let ?evs = "[FetchRejected 10
       \<lparr>err_name = ''FetchError'', err_message = ''socket hang up'', err_stack = []\<rparr>]"
  let ?bad = "sample_request\<lparr>req_body := Some (JStr ''{invalid:json}'')\<rparr>"
  have w: "writes (run sample_request ?evs)
     = [\<lparr>res_status = 500, res_body = proxy_error_body ''socket hang up'' ''req-1''\<rparr>]"
    by (simp add: run_def initial_def sample_request_def catch_block_def Let_def last_write_def
        res_json_def)
  have nb: "\<not> list_ex (is_body_parsed (proxy_error_body ''socket hang up'' ''req-1'')) ?evs"
    by simp
  have r: "req_id sample_request = ''req-1''" by (simp add: sample_request_def)
  note t = error_bodies_shape
    [of sample_request ?evs sample_parse sample_String sample_syntax_message BodyParserNext "[]"]
  have a: "full_error (proxy_error_body ''socket hang up'' ''req-1'') ''req-1''"
    using t [THEN conjunct1] nb unfolding w r by simp
  have c: "snd (combined_app sample_parse sample_String sample_syntax_message BodyParserNext
        ?bad [])
     = [\<lparr>res_status = 400,
         res_body = parse_error_body ''Unexpected token i in JSON at position 1''\<rparr>]"
    by (simp add: combined_app_def json_parser_middleware_def JSON_parse_def sample_parse_def
        sample_syntax_message_def)
  note t2 = error_bodies_shape
    [of ?bad "[]" sample_parse sample_String sample_syntax_message BodyParserNext "[]"]
  have d: "typed_error (parse_error_body ''Unexpected token i in JSON at position 1'')"
    using t2 [THEN conjunct2] unfolding c by simp
  show ?thesis
    by (intro conjI) (rule w a c d)+
qed


text \<open>
  C10 as stated fails on the 400 that the JSON parser middleware sends for the body
  \<^verbatim>\<open>{invalid:json}\<close>, which has neither \<^verbatim>\<open>requestId\<close> nor \<^verbatim>\<open>code\<close>, and on
  the 500 that the catch-all route sends when the upstream call fails, which has
  neither \<^verbatim>\<open>requestId\<close> nor \<^verbatim>\<open>details\<close>.
\<close>

theorem parse_error_body_counterexample:
  "snd (combined_app sample_parse sample_String sample_syntax_message BodyParserNext
        (sample_request\<lparr>req_body := Some (JStr ''{invalid:json}'')\<rparr>) [])
     = [\<lparr>res_status = 400,
         res_body = parse_error_body ''Unexpected token i in JSON at position 1''\<rparr>]
   \<and> map_of (error_fields (parse_error_body ''Unexpected token i in JSON at position 1''))
       ''requestId'' = None
   \<and> map_of (error_fields (parse_error_body ''Unexpected token i in JSON at position 1''))
       ''code'' = None
   \<and> snd (combined_app sample_parse sample_String sample_syntax_message BodyParserNext
        (sample_request\<lparr>req_body := Some (JStr ''{}'')\<rparr>) [UpstreamFailed ''socket hang up''])
     = [\<lparr>res_status = 500, res_body = internal_error_body ''socket hang up''\<rparr>]
   \<and> map_of (error_fields (internal_error_body ''socket hang up'')) ''requestId'' = None
   \<and> map_of (error_fields (internal_error_body ''socket hang up'')) ''details'' = None"
  by (simp add: combined_app_def json_parser_middleware_def JSON_parse_def sample_parse_def
      sample_syntax_message_def combined_initial_def combined_catch_def combined_json_def
      error_fields_def parse_error_body_def internal_error_body_def)

end
